theory Spec2Isabelle
  imports Complex_Main "HOL-Library.AList"
begin

section \<open>Shared data: errors, configuration values\<close>

text \<open>
  Exceptions of the Python source are values. \<open>SystemExit\<close> is what the builtin
  \<^verbatim>\<open>exit(1)\<close> raises; \<open>ModelNotFittedError\<close> and \<open>CheckpointLoadError\<close> are the
  names the specification uses, kept here so that statements about them can be written
  (no function under \<^verbatim>\<open>src/\<close> raises either of them).
\<close>

datatype error =
    AssertionError string
  | KeyError string
  | TypeError string
  | ValueError string
  | IndexError string
  | UnboundLocalError string
  | FileNotFoundError string
  | OSError string
  | SystemExit int
  | ModelNotFittedError
  | CheckpointLoadError string

text \<open>The values a configuration dictionary holds (\<^verbatim>\<open>cfg[key]\<close>).\<close>

datatype cfg_val =
    StrV string
  | IntV int
  | FloatV real
  | FlagV bool
  | FloatsV "real list"

type_synonym cfg = "string \<rightharpoonup> cfg_val"

text \<open>Python's \<^verbatim>\<open>len\<close>: defined on strings and lists, a \<^verbatim>\<open>TypeError\<close> on scalars.\<close>

fun py_len :: "cfg_val \<Rightarrow> error + nat" where
  "py_len (StrV s) = Inr (length s)"
| "py_len (FloatsV ws) = Inr (length ws)"
| "py_len (IntV n) = Inl (TypeError ''object of type int has no len()'')"
| "py_len (FloatV x) = Inl (TypeError ''object of type float has no len()'')"
| "py_len (FlagV b) = Inl (TypeError ''object of type bool has no len()'')"

text \<open>
  \<^verbatim>\<open>torch.tensor(self.cfg['loss_weight'])\<close>: a sequence of floats becomes the weight
  tensor; a string is no tensor data. (Scalars never reach this call: \<^verbatim>\<open>len\<close> has
  failed on them before.)
\<close>

fun torch_tensor :: "cfg_val \<Rightarrow> error + real list" where
  "torch_tensor (FloatsV ws) = Inr ws"
| "torch_tensor (IntV n) = Inr [of_int n]"
| "torch_tensor (FloatV x) = Inr [x]"
| "torch_tensor (FlagV b) = Inr [if b then 1 else 0]"
| "torch_tensor (StrV s) = Inl (TypeError ''invalid data type str'')"


section \<open>\<^verbatim>\<open>ml/models/base_model.py\<close>: class \<open>BaseModel\<close>\<close>

datatype criterion = MSELoss | BCELoss "real list"

text \<open>
  The instance state of \<open>BaseModel\<close>. \<open>model\<close> is the wrapped predictor
  (\<^verbatim>\<open>self.model\<close>), which \<^verbatim>\<open>__init__\<close> does not assign: the subclasses do, so the
  constructor below receives it.
\<close>

record ('l, 'm) base_model =
  class_labels :: "'l list"
  cfg :: cfg
  criterion :: criterion
  fitted :: bool
  model :: 'm

text \<open>
  \<^verbatim>\<open>_check_cfg\<close>: \<^verbatim>\<open>for key in must_contain_keys: assert key in cfg.keys(), ...\<close>
\<close>

fun check_cfg :: "cfg \<Rightarrow> string list \<Rightarrow> error + cfg" where
  "check_cfg c [] = Inr c"
| "check_cfg c (key # keys) =
     (if c key \<noteq> None then check_cfg c keys
      else Inl (AssertionError (key @ '' must be contained in the model conf'')))"

text \<open>
  \<^verbatim>\<open>_set_criterion\<close>: the \<^verbatim>\<open>else\<close> branch is taken by every task type other than
  \<^verbatim>\<open>'regress'\<close>. The assertion evaluates \<^verbatim>\<open>len(self.class_labels)\<close>, then
  \<^verbatim>\<open>self.cfg['loss_weight']\<close> (a \<^verbatim>\<open>KeyError\<close> when absent), then its \<^verbatim>\<open>len\<close>.
\<close>

definition set_criterion :: "'l list \<Rightarrow> cfg \<Rightarrow> error + criterion" where
  "set_criterion labels c =
     (case c ''task_type'' of
        None \<Rightarrow> Inl (KeyError ''task_type'')
      | Some t \<Rightarrow>
          if t = StrV ''regress'' then Inr MSELoss
          else (case c ''loss_weight'' of
                  None \<Rightarrow> Inl (KeyError ''loss_weight'')
                | Some w \<Rightarrow>
                    (case py_len w of
                       Inl e \<Rightarrow> Inl e
                     | Inr n \<Rightarrow>
                         if length labels = n
                         then (case torch_tensor w of
                                 Inl e \<Rightarrow> Inl e
                               | Inr ws \<Rightarrow> Inr (BCELoss ws))
                         else Inl (AssertionError
                           ''loss weight needs to be matched with the number of classes''))))"

text \<open>
  \<^verbatim>\<open>BaseModel.__init__(class_labels, cfg, must_contain_keys)\<close>; the last argument is
  the wrapped predictor a subclass stores in \<^verbatim>\<open>self.model\<close>.
\<close>

definition BaseModel_init ::
  "'l list \<Rightarrow> cfg \<Rightarrow> string list \<Rightarrow> 'm \<Rightarrow> error + ('l, 'm) base_model" where
  "BaseModel_init labels c must_contain_keys m =
     (case check_cfg c must_contain_keys of
        Inl e \<Rightarrow> Inl e
      | Inr c' \<Rightarrow>
          (case set_criterion labels c' of
             Inl e \<Rightarrow> Inl e
           | Inr crit \<Rightarrow>
               Inr \<lparr>class_labels = labels, cfg = c', criterion = crit,
                    fitted = False, model = m\<rparr>))"

subsection \<open>Persistence: \<open>save_model\<close>, \<open>load_model\<close>\<close>

text \<open>
  The outside world the backend touches: the files (keyed by the value handed to
  \<^verbatim>\<open>open\<close>, holding what was pickled), which of them can be opened for writing, and the
  lines printed. \<open>Fmt s v\<close> is the f-string \<open>s\<close> followed by the value \<open>v\<close>.
\<close>

datatype out_item = Text string | Fmt string cfg_val | FmtNum string real

record 'p world =
  files :: "cfg_val \<rightharpoonup> 'p"
  writable :: "cfg_val \<Rightarrow> bool"
  stdout :: "out_item list"

text \<open>
  The wrapped predictor \<^verbatim>\<open>self.model\<close> belongs to classes outside \<^verbatim>\<open>base_model.py\<close>;
  its three members that \<open>BaseModel\<close> uses are parameters.
\<close>

record ('m, 'p) inner_ops =
  inner_save_model :: "'m \<Rightarrow> cfg_val \<Rightarrow> 'p world \<Rightarrow> error option \<times> 'm \<times> 'p world"
  inner_load_model :: "'m \<Rightarrow> cfg_val \<Rightarrow> 'p world \<Rightarrow> error option \<times> 'm \<times> 'p world"
  inner_fitted :: "'m \<Rightarrow> bool"

text \<open>
  \<^verbatim>\<open>def save_model(self): self.model.save_model(self.cfg['model_path'])\<close>
\<close>

definition save_model ::
  "('m, 'p) inner_ops \<Rightarrow> ('l, 'm) base_model \<Rightarrow> 'p world \<Rightarrow>
     error option \<times> ('l, 'm) base_model \<times> 'p world" where
  "save_model iops self w =
     (case cfg self ''model_path'' of
        None \<Rightarrow> (Some (KeyError ''model_path''), self, w)
      | Some path \<Rightarrow>
          (case inner_save_model iops (model self) path w of
             (r, m', w') \<Rightarrow> (r, self\<lparr>model := m'\<rparr>, w')))"

text \<open>
  \<^verbatim>\<open>load_model\<close>: only \<^verbatim>\<open>FileNotFoundError\<close> is caught; the handler prints the
  exception and the path and calls \<^verbatim>\<open>exit(1)\<close>. Any other exception propagates, and
  \<^verbatim>\<open>self.fitted = self.model.fitted\<close> runs after a load that raised nothing.
\<close>

definition print_line :: "out_item \<Rightarrow> 'p world \<Rightarrow> 'p world" where
  "print_line l w = w\<lparr>stdout := stdout w @ [l]\<rparr>"

definition load_model ::
  "('m, 'p) inner_ops \<Rightarrow> ('l, 'm) base_model \<Rightarrow> 'p world \<Rightarrow>
     error option \<times> ('l, 'm) base_model \<times> 'p world" where
  "load_model iops self w =
     (case cfg self ''model_path'' of
        None \<Rightarrow> (Some (KeyError ''model_path''), self, w)
      | Some path \<Rightarrow>
          (case inner_load_model iops (model self) path w of
             (r, m', w') \<Rightarrow>
               (case r of
                  None \<Rightarrow>
                    (None, self\<lparr>fitted := inner_fitted iops m', model := m'\<rparr>,
                     print_line (Text ''Saved model loaded.'') w')
                | Some e \<Rightarrow>
                    (case e of
                       FileNotFoundError msg \<Rightarrow>
                         (Some (SystemExit 1), self\<lparr>model := m'\<rparr>,
                          print_line (Fmt ''trained model file doesn't exist at '' path)
                            (print_line (Text msg) w'))
                     | _ \<Rightarrow> (Some e, self\<lparr>model := m'\<rparr>, w')))))"

text \<open>\<^verbatim>\<open>anneal_lr\<close> and \<^verbatim>\<open>update_by_epoch\<close> of \<open>BaseModel\<close>: \<^verbatim>\<open>pass\<close>.\<close>

definition anneal_lr :: "cfg_val \<Rightarrow> ('l, 'm) base_model \<Rightarrow> ('l, 'm) base_model" where
  "anneal_lr learning_anneal self = self"

definition update_by_epoch :: "string \<Rightarrow> ('l, 'm) base_model \<Rightarrow> ('l, 'm) base_model" where
  "update_by_epoch phase self = self"


section \<open>\<^verbatim>\<open>ml/models/ml_models/decision_trees.py\<close>: class \<open>LightGBM\<close>\<close>

text \<open>
  A Python value a \<^verbatim>\<open>fit\<close> method returns: a float score or a string.
\<close>

datatype py_value = PyFloat real | PyStr string

text \<open>
  The predictor object: \<open>lgb_model\<close> is the library estimator \<^verbatim>\<open>self.model\<close>.
  The estimator belongs to the lightgbm library; of it the code uses \<^verbatim>\<open>fit\<close> (a
  parameter below) and the attribute \<^verbatim>\<open>best_score_\<close> (\<open>estimator_best_score\<close>), an
  insertion-ordered dictionary from the name of an evaluation set to its metric values.
\<close>

record 'e lightgbm =
  classify :: bool
  lgb_model :: 'e
  lgb_fitted :: bool

type_synonym best_score_dict = "(string \<times> (string \<times> real) list) list"

record ('e, 'x, 'y) lgb_library =
  estimator_fit :: "'e \<Rightarrow> 'x \<Rightarrow> 'y \<Rightarrow> ('x \<times> 'y) list \<Rightarrow> error + 'e"
  estimator_best_score :: "'e \<Rightarrow> best_score_dict"

text \<open>\<^verbatim>\<open>list(d.keys())[-1]\<close>: the last key, an \<^verbatim>\<open>IndexError\<close> on an empty dictionary.\<close>

definition last_key :: "best_score_dict \<Rightarrow> error + string" where
  "last_key d = (if d = [] then Inl (IndexError ''list index out of range'')
                 else Inr (fst (last d)))"

text \<open>
  \<^verbatim>\<open>LightGBM.fit(x, y, eval_x=None, eval_y=None)\<close>: the held-out pair joins the
  evaluation sets when \<^verbatim>\<open>eval_x\<close> is an array; the estimator is fitted (with early
  stopping); the value returned is \<^verbatim>\<open>list(self.model.best_score_.keys())[-1]\<close>.
\<close>

definition LightGBM_fit ::
  "('e, 'x, 'y) lgb_library \<Rightarrow> 'x \<Rightarrow> 'y \<Rightarrow> 'x option \<Rightarrow> 'y \<Rightarrow> 'e lightgbm \<Rightarrow>
     error + (py_value \<times> 'e lightgbm)" where
  "LightGBM_fit lib x y eval_x eval_y self =
     (let eval_set = [(x, y)] @ (case eval_x of None \<Rightarrow> [] | Some ex \<Rightarrow> [(ex, eval_y)])
      in case estimator_fit lib (lgb_model self) x y eval_set of
           Inl e \<Rightarrow> Inl e
         | Inr est \<Rightarrow>
             (case last_key (estimator_best_score lib est) of
                Inl e \<Rightarrow> Inl e
              | Inr k \<Rightarrow> Inr (PyStr k, self\<lparr>lgb_model := est\<rparr>)))"

text \<open>
  \<^verbatim>\<open>LightGBM.save_model(fname)\<close>: \<^verbatim>\<open>open(fname, 'wb')\<close>, then
  \<^verbatim>\<open>pickle.dump(self.model, f)\<close>. Nothing reads a fitted flag.
\<close>

definition LightGBM_save_model ::
  "'e lightgbm \<Rightarrow> cfg_val \<Rightarrow> 'e world \<Rightarrow> error option \<times> 'e lightgbm \<times> 'e world" where
  "LightGBM_save_model self fname w =
     (if writable w fname
      then (None, self, w\<lparr>files := (files w)(fname \<mapsto> lgb_model self)\<rparr>)
      else (Some (OSError ''cannot open file for writing''), self, w))"

text \<open>
  The \<open>LightGBM\<close> predictor as the wrapped model of a \<open>BaseModel\<close>. Its
  \<^verbatim>\<open>load_model\<close> is inherited from a class outside the source files at hand and is a
  parameter.
\<close>

definition LightGBM_ops ::
  "('e lightgbm \<Rightarrow> cfg_val \<Rightarrow> 'e world \<Rightarrow> error option \<times> 'e lightgbm \<times> 'e world) \<Rightarrow>
     ('e lightgbm, 'e) inner_ops" where
  "LightGBM_ops load =
     \<lparr>inner_save_model = LightGBM_save_model, inner_load_model = load,
      inner_fitted = lgb_fitted\<rparr>"

text \<open>
  Modelled from the spec: \<^verbatim>\<open>load_model\<close> of the predictor's base class
  (\<^verbatim>\<open>BaseMLPredictor\<close> of \<^verbatim>\<open>toolbox.py\<close>, which is not among the source files). It
  restores from the path: \<^verbatim>\<open>FileNotFoundError\<close> when the file is absent, the stored
  estimator otherwise.
\<close>

definition pickle_load ::
  "'e lightgbm \<Rightarrow> cfg_val \<Rightarrow> 'e world \<Rightarrow> error option \<times> 'e lightgbm \<times> 'e world" where
  "pickle_load self fname w =
     (case files w fname of
        None \<Rightarrow> (Some (FileNotFoundError ''No such file or directory''), self, w)
      | Some est \<Rightarrow> (None, self\<lparr>lgb_model := est, lgb_fitted := True\<rparr>, w))"

definition empty_world :: "'e world" where
  "empty_world = \<lparr>files = Map.empty, writable = (\<lambda>f. True), stdout = []\<rparr>"


text \<open>A classify configuration with three classes, and a regress one, used as inputs below.\<close>

definition classify_cfg :: "real list \<Rightarrow> cfg" where
  "classify_cfg ws =
     [''task_type'' \<mapsto> StrV ''classify'', ''loss_weight'' \<mapsto> FloatsV ws,
      ''model_path'' \<mapsto> StrV ''out/model.pkl'', ''batch_size'' \<mapsto> IntV 2,
      ''model_type'' \<mapsto> StrV ''rnn'']"

definition regress_cfg :: cfg where
  "regress_cfg =
     [''task_type'' \<mapsto> StrV ''regress'', ''model_path'' \<mapsto> StrV ''out/model.pkl'',
      ''batch_size'' \<mapsto> IntV 2, ''model_type'' \<mapsto> StrV ''xgboost'']"


text \<open>
  An instance of the library for evaluation: fitting stores one entry per evaluation set,
  the training pair under the name \<open>training\<close> and a held-out pair under \<open>valid_1\<close>,
  each with its score for the metric \<open>rmse\<close>.
\<close>

definition example_library :: "(best_score_dict, real list, real list) lgb_library" where
  "example_library =
     \<lparr>estimator_fit = (\<lambda>est x y eval_set.
        Inr (map (\<lambda>i. (if i = 0 then ''training'' else ''valid_1'', [(''rmse'', 1 / 2)]))
               [0 ..< length eval_set])),
      estimator_best_score = (\<lambda>est. est)\<rparr>"

definition unfitted_lightgbm :: "best_score_dict lightgbm" where
  "unfitted_lightgbm = \<lparr>classify = False, lgb_model = [], lgb_fitted = False\<rparr>"

text \<open>The backend that construction yields around the unfitted predictor.\<close>

definition unfitted_backend :: "(string, best_score_dict lightgbm) base_model" where
  "unfitted_backend =
     \<lparr>class_labels = [], cfg = regress_cfg, criterion = MSELoss, fitted = False,
      model = unfitted_lightgbm\<rparr>"


section \<open>Metrics\<close>

text \<open>
  Modelled from the spec: the classes \<open>Metric\<close> and \<open>AverageMeter\<close> (module
  \<^verbatim>\<open>ml.utils.utils\<close>, which is not among the source files). A meter holds the last
  value, the running sum and count, the average (sum / count) and the remembered best;
  \<open>update_best\<close> compares the average against the best by the metric's direction and
  on a strict improvement stores it and returns true; \<open>reset\<close> zeroes sum and count and
  never the best.
\<close>

datatype direction = LowerIsBetter | HigherIsBetter

record average_meter =
  meter_value :: real
  meter_sum :: real
  meter_count :: nat
  average :: real
  best_score :: real
  direction :: direction

definition improves :: "direction \<Rightarrow> real \<Rightarrow> real \<Rightarrow> bool" where
  "improves d avg best =
     (case d of LowerIsBetter \<Rightarrow> avg < best | HigherIsBetter \<Rightarrow> best < avg)"

definition update_best :: "average_meter \<Rightarrow> bool \<times> average_meter" where
  "update_best a =
     (if improves (direction a) (average a) (best_score a)
      then (True, a\<lparr>best_score := average a\<rparr>)
      else (False, a))"

definition reset :: "average_meter \<Rightarrow> average_meter" where
  "reset a = a\<lparr>meter_sum := 0, meter_count := 0\<rparr>"

definition meter_update :: "real \<Rightarrow> average_meter \<Rightarrow> average_meter" where
  "meter_update v a =
     a\<lparr>meter_value := v, meter_sum := meter_sum a + v, meter_count := meter_count a + 1,
       average := (meter_sum a + v) / real (meter_count a + 1)\<rparr>"

text \<open>
  Modelled from the spec: a \<open>Metric\<close> as \<^verbatim>\<open>model_manager.py\<close> uses it, with one meter
  per phase (\<^verbatim>\<open>metric.average_meter[phase]\<close>), the save-triggering flag
  (\<^verbatim>\<open>metric.save_model\<close>) and \<open>update\<close>, which folds the per-batch scalar into the
  phase's meter: the loss itself (no scoring function) or a score of predictions against
  labels.
\<close>

record metric =
  name :: string
  metric_save_model :: bool
  score_fn :: "(real list \<Rightarrow> real list \<Rightarrow> real) option"
  average_meter :: "string \<rightharpoonup> average_meter"

definition metric_update ::
  "string \<Rightarrow> real \<Rightarrow> real list \<Rightarrow> real list \<Rightarrow> metric \<Rightarrow> error + metric" where
  "metric_update phase loss_value preds labels m =
     (case average_meter m phase of
        None \<Rightarrow> Inl (KeyError phase)
      | Some a \<Rightarrow>
          Inr (m\<lparr>average_meter := (average_meter m)(phase \<mapsto>
                 meter_update (case score_fn m of None \<Rightarrow> loss_value
                                | Some f \<Rightarrow> f preds labels) a)\<rparr>))"


section \<open>\<^verbatim>\<open>ml/models/model_manager.py\<close>: class \<open>BaseModelManager\<close>\<close>

text \<open>
  The collaborators outside the file are parameters: the backend \<^verbatim>\<open>self.model\<close> (an
  \<open>NNModel\<close> or \<open>MLModel\<close>; its state \<open>'b\<close> stands for the object together with
  what it touches outside) and \<^verbatim>\<open>sklearn.metrics.confusion_matrix\<close>. Each backend
  method may raise and may change the backend.
\<close>

record ('i, 'b) collaborators =
  op_fit :: "'i \<Rightarrow> real list \<Rightarrow> string \<Rightarrow> 'b \<Rightarrow> (error + real \<times> real list) \<times> 'b"
  op_predict :: "'i \<Rightarrow> 'b \<Rightarrow> (error + real list) \<times> 'b"
  op_save_model :: "'b \<Rightarrow> error option \<times> 'b"
  op_load_model :: "'b \<Rightarrow> error option \<times> 'b"
  op_anneal_lr :: "cfg_val \<Rightarrow> 'b \<Rightarrow> error option \<times> 'b"
  op_update_by_epoch :: "string \<Rightarrow> 'b \<Rightarrow> error option \<times> 'b"
  op_criterion :: "real list \<Rightarrow> real list \<Rightarrow> 'b \<Rightarrow> (error + real) \<times> 'b"
  confusion_matrix :: "real list \<Rightarrow> real list \<Rightarrow> nat \<Rightarrow> error + nat list list"

text \<open>
  What the manager does to the outside, in order: the backend methods it calls and the
  lines it prints.
\<close>

datatype event =
    Called_fit string
  | Called_predict
  | Called_save_model
  | Called_load_model
  | Called_anneal_lr cfg_val
  | Called_update_by_epoch string
  | Called_criterion
  | Called_logger nat
  | Printed out_item
  | Printed_matrix "nat list list"

record ('i, 'b) manager =
  mgr_class_labels :: "string list"
  mgr_cfg :: cfg
  dataloaders :: "string \<rightharpoonup> ('i \<times> real list) list"
  mgr_model :: 'b
  logger :: bool
  metrics :: "metric list"
  events :: "event list"

definition emit :: "event \<Rightarrow> ('i, 'b) manager \<Rightarrow> ('i, 'b) manager" where
  "emit e mgr = mgr\<lparr>events := events mgr @ [e]\<rparr>"

definition call_save_model ::
  "('i, 'b) collaborators \<Rightarrow> ('i, 'b) manager \<Rightarrow> error option \<times> ('i, 'b) manager" where
  "call_save_model ops mgr =
     (case op_save_model ops (mgr_model mgr) of
        (r, b) \<Rightarrow> (r, emit Called_save_model (mgr\<lparr>mgr_model := b\<rparr>)))"

definition call_load_model ::
  "('i, 'b) collaborators \<Rightarrow> ('i, 'b) manager \<Rightarrow> error option \<times> ('i, 'b) manager" where
  "call_load_model ops mgr =
     (case op_load_model ops (mgr_model mgr) of
        (r, b) \<Rightarrow> (r, emit Called_load_model (mgr\<lparr>mgr_model := b\<rparr>)))"

definition call_anneal_lr ::
  "('i, 'b) collaborators \<Rightarrow> cfg_val \<Rightarrow> ('i, 'b) manager \<Rightarrow>
     error option \<times> ('i, 'b) manager" where
  "call_anneal_lr ops learning_anneal mgr =
     (case op_anneal_lr ops learning_anneal (mgr_model mgr) of
        (r, b) \<Rightarrow> (r, emit (Called_anneal_lr learning_anneal) (mgr\<lparr>mgr_model := b\<rparr>)))"

definition call_predict ::
  "('i, 'b) collaborators \<Rightarrow> 'i \<Rightarrow> ('i, 'b) manager \<Rightarrow>
     (error + real list) \<times> ('i, 'b) manager" where
  "call_predict ops inputs mgr =
     (case op_predict ops inputs (mgr_model mgr) of
        (r, b) \<Rightarrow> (r, emit Called_predict (mgr\<lparr>mgr_model := b\<rparr>)))"

definition call_criterion ::
  "('i, 'b) collaborators \<Rightarrow> real list \<Rightarrow> real list \<Rightarrow> ('i, 'b) manager \<Rightarrow>
     (error + real) \<times> ('i, 'b) manager" where
  "call_criterion ops preds labels mgr =
     (case op_criterion ops preds labels (mgr_model mgr) of
        (r, b) \<Rightarrow> (r, emit Called_criterion (mgr\<lparr>mgr_model := b\<rparr>)))"

definition call_fit ::
  "('i, 'b) collaborators \<Rightarrow> 'i \<Rightarrow> real list \<Rightarrow> string \<Rightarrow> ('i, 'b) manager \<Rightarrow>
     (error + real \<times> real list) \<times> ('i, 'b) manager" where
  "call_fit ops inputs labels phase mgr =
     (case op_fit ops inputs labels phase (mgr_model mgr) of
        (r, b) \<Rightarrow> (r, emit (Called_fit phase) (mgr\<lparr>mgr_model := b\<rparr>)))"

subsection \<open>\<^verbatim>\<open>_update_by_epoch\<close>\<close>

text \<open>
  The body of the loop over \<^verbatim>\<open>self.metrics\<close>, for one metric:
  \<^verbatim>\<open>best_flag = metric.average_meter[phase].update_best()\<close>; when
  \<^verbatim>\<open>metric.save_model and best_flag and phase == 'val'\<close> the line naming
  \<^verbatim>\<open>self.cfg['model_path']\<close> is printed and \<^verbatim>\<open>self.model.save_model()\<close> called; then
  \<^verbatim>\<open>metric.average_meter[phase].reset()\<close>. The metric object is mutated in place and
  is returned as it is when the body ends or an exception leaves it.
\<close>

definition update_metric_by_epoch ::
  "('i, 'b) collaborators \<Rightarrow> string \<Rightarrow> metric \<Rightarrow> ('i, 'b) manager \<Rightarrow>
     error option \<times> metric \<times> ('i, 'b) manager" where
  "update_metric_by_epoch ops phase m mgr =
     (case average_meter m phase of
        None \<Rightarrow> (Some (KeyError phase), m, mgr)
      | Some a \<Rightarrow>
          (case update_best a of
             (best_flag, a1) \<Rightarrow>
               (let m1 = m\<lparr>average_meter := (average_meter m)(phase \<mapsto> a1)\<rparr>
                in case (if metric_save_model m1 \<and> best_flag \<and> phase = ''val''
                         then (case mgr_cfg mgr ''model_path'' of
                                 None \<Rightarrow> (Some (KeyError ''model_path''), mgr)
                               | Some path \<Rightarrow>
                                   call_save_model ops
                                     (emit (Printed
                                        (Fmt ''Found better validated model, saving to '' path))
                                        mgr))
                         else (None, mgr)) of
                     (Some e, mgr1) \<Rightarrow> (Some e, m1, mgr1)
                   | (None, mgr1) \<Rightarrow>
                       (None,
                        m1\<lparr>average_meter := (average_meter m1)(phase \<mapsto> reset a1)\<rparr>,
                        mgr1))))"

fun update_metrics_by_epoch ::
  "('i, 'b) collaborators \<Rightarrow> string \<Rightarrow> metric list \<Rightarrow> ('i, 'b) manager \<Rightarrow>
     error option \<times> metric list \<times> ('i, 'b) manager" where
  "update_metrics_by_epoch ops phase [] mgr = (None, [], mgr)"
| "update_metrics_by_epoch ops phase (m # ms) mgr =
     (case update_metric_by_epoch ops phase m mgr of
        (Some e, m', mgr1) \<Rightarrow> (Some e, m' # ms, mgr1)
      | (None, m', mgr1) \<Rightarrow>
          (case update_metrics_by_epoch ops phase ms mgr1 of
             (r, ms', mgr2) \<Rightarrow> (r, m' # ms', mgr2)))"

text \<open>
  \<^verbatim>\<open>_update_by_epoch(phase, epoch, learning_anneal)\<close>: the loop, then
  \<^verbatim>\<open>self.model.anneal_lr(learning_anneal)\<close> when the phase is \<^verbatim>\<open>'train'\<close>, then the
  line \<^verbatim>\<open>epoch ... ended.\<close> when the phase is \<^verbatim>\<open>'val'\<close>.
\<close>

definition manager_update_by_epoch ::
  "('i, 'b) collaborators \<Rightarrow> string \<Rightarrow> nat \<Rightarrow> cfg_val \<Rightarrow> ('i, 'b) manager \<Rightarrow>
     error option \<times> ('i, 'b) manager" where
  "manager_update_by_epoch ops phase epoch learning_anneal mgr =
     (case update_metrics_by_epoch ops phase (metrics mgr) mgr of
        (Some e, ms, mgr1) \<Rightarrow> (Some e, mgr1\<lparr>metrics := ms\<rparr>)
      | (None, ms, mgr1) \<Rightarrow>
          (case (if phase = ''train''
                 then call_anneal_lr ops learning_anneal (mgr1\<lparr>metrics := ms\<rparr>)
                 else (None, mgr1\<lparr>metrics := ms\<rparr>)) of
             (Some e, mgr2) \<Rightarrow> (Some e, mgr2)
           | (None, mgr2) \<Rightarrow>
               (None, if phase = ''val''
                      then emit (Printed (FmtNum ''epoch ended: '' (real epoch))) mgr2
                      else mgr2)))"

subsection \<open>\<^verbatim>\<open>_predict\<close>\<close>

text \<open>
  \<^verbatim>\<open>check_keys_from_dict\<close>: \<^verbatim>\<open>assert key in dic.keys()\<close> for each key in turn.
\<close>

fun check_keys_from_dict :: "string list \<Rightarrow> (string \<rightharpoonup> 'v) \<Rightarrow> error option" where
  "check_keys_from_dict [] dic = None"
| "check_keys_from_dict (key # keys) dic =
     (if dic key \<noteq> None then check_keys_from_dict keys dic
      else Some (AssertionError (key @ '' must be in the dictionary'')))"

text \<open>
  The configured batch size as the integer the shape and the slices are computed with
  (a Python \<^verbatim>\<open>bool\<close> is an integer); other values are no array dimension.
\<close>

fun as_int :: "cfg_val \<Rightarrow> error + int" where
  "as_int (IntV n) = Inr n"
| "as_int (FlagV b) = Inr (if b then 1 else 0)"
| "as_int (FloatV x) = Inl (TypeError ''float object cannot be interpreted as an integer'')"
| "as_int (StrV s) = Inl (TypeError ''str object cannot be interpreted as an integer'')"
| "as_int (FloatsV ws) = Inl (TypeError ''list object cannot be interpreted as an integer'')"

text \<open>
  The value the buffers are filled with: \<^verbatim>\<open>np.zeros(...) - 1000000\<close>. Storing into a
  buffer of dtype \<^verbatim>\<open>np.int\<close> (task type classify) truncates towards zero; a buffer of
  dtype \<^verbatim>\<open>np.float\<close> keeps the value.
\<close>

definition sentinel :: real where
  "sentinel = - 1000000"

definition np_cast :: "bool \<Rightarrow> real \<Rightarrow> real" where
  "np_cast int_dtype v =
     (if int_dtype then (if 0 \<le> v then of_int \<lfloor>v\<rfloor> else of_int \<lceil>v\<rceil>) else v)"

text \<open>
  \<^verbatim>\<open>buf[start:start + len(vals), 0] = vals\<close>: the slice is clipped to the buffer; the
  values must have the length of the clipped slice, or be a single value (which is
  broadcast), otherwise numpy raises \<^verbatim>\<open>ValueError\<close>.
\<close>

definition assign_slice :: "real list \<Rightarrow> nat \<Rightarrow> real list \<Rightarrow> error + real list" where
  "assign_slice buf start vals =
     (let a = min start (length buf);
          b = min (start + length vals) (length buf)
      in if length vals = b - a then Inr (take a buf @ vals @ drop b buf)
         else if length vals = 1
         then Inr (take a buf @ replicate (b - a) (hd vals) @ drop b buf)
         else Inl (ValueError ''could not broadcast input array into shape''))"

text \<open>
  The loop \<^verbatim>\<open>for i, (inputs, labels) in enumerate(self.dataloaders[phase])\<close>: predict,
  then write predictions and labels at offset \<^verbatim>\<open>i * batch_size\<close>.
\<close>

fun predict_batches ::
  "('i, 'b) collaborators \<Rightarrow> nat \<Rightarrow> bool \<Rightarrow> nat \<Rightarrow> ('i \<times> real list) list \<Rightarrow>
     real list \<times> real list \<Rightarrow> ('i, 'b) manager \<Rightarrow>
     (error + real list \<times> real list) \<times> ('i, 'b) manager" where
  "predict_batches ops batch_size int_dtype i [] (pred_list, label_list) mgr =
     (Inr (pred_list, label_list), mgr)"
| "predict_batches ops batch_size int_dtype i ((inputs, labels) # rest)
       (pred_list, label_list) mgr =
     (case call_predict ops inputs mgr of
        (Inl e, mgr1) \<Rightarrow> (Inl e, mgr1)
      | (Inr preds, mgr1) \<Rightarrow>
          (case assign_slice pred_list (i * batch_size) (map (np_cast int_dtype) preds) of
             Inl e \<Rightarrow> (Inl e, mgr1)
           | Inr pred_list' \<Rightarrow>
               (case assign_slice label_list (i * batch_size)
                       (map (np_cast int_dtype) labels) of
                  Inl e \<Rightarrow> (Inl e, mgr1)
                | Inr label_list' \<Rightarrow>
                    predict_batches ops batch_size int_dtype (Suc i) rest
                      (pred_list', label_list') mgr1)))"

text \<open>
  \<^verbatim>\<open>_predict(phase)\<close>: both buffers have \<^verbatim>\<open>len(dataloader) * batch_size\<close> slots
  filled with the sentinel (a negative size is a \<^verbatim>\<open>ValueError\<close> of \<^verbatim>\<open>np.zeros\<close>); the
  result keeps, of each buffer, the entries that differ from the sentinel.
\<close>

definition manager_predict ::
  "('i, 'b) collaborators \<Rightarrow> string \<Rightarrow> ('i, 'b) manager \<Rightarrow>
     (error + real list \<times> real list) \<times> ('i, 'b) manager" where
  "manager_predict ops phase mgr =
     (case mgr_cfg mgr ''batch_size'' of
        None \<Rightarrow> (Inl (KeyError ''batch_size''), mgr)
      | Some bs \<Rightarrow>
          (case dataloaders mgr phase of
             None \<Rightarrow> (Inl (AssertionError (phase @ '' must be in the dictionary'')), mgr)
           | Some batches \<Rightarrow>
               (case mgr_cfg mgr ''task_type'' of
                  None \<Rightarrow> (Inl (KeyError ''task_type''), mgr)
                | Some t \<Rightarrow>
                    (case as_int bs of
                       Inl e \<Rightarrow> (Inl e, mgr)
                     | Inr batch_size \<Rightarrow>
                         if int (length batches) * batch_size < 0
                         then (Inl (ValueError ''negative dimensions are not allowed''), mgr)
                         else
                           (let buf = replicate (length batches * nat batch_size) sentinel
                            in case predict_batches ops (nat batch_size)
                                      (t = StrV ''classify'') 0 batches (buf, buf) mgr of
                                 (Inl e, mgr1) \<Rightarrow> (Inl e, mgr1)
                               | (Inr (pred_list, label_list), mgr1) \<Rightarrow>
                                   (Inr (filter (\<lambda>v. v \<noteq> sentinel) pred_list,
                                         filter (\<lambda>v. v \<noteq> sentinel) label_list),
                                    mgr1))))))"

subsection \<open>\<^verbatim>\<open>test\<close>\<close>

text \<open>
  The body of the loop over \<^verbatim>\<open>self.metrics\<close> in \<^verbatim>\<open>test\<close>, for one metric.
  \<open>loss_value\<close> is the local variable of that name: unbound (\<open>None\<close>) until an
  iteration assigns it, and kept from one iteration to the next. \<open>skipped\<close> tells
  that the iteration ended at \<^verbatim>\<open>continue\<close>.
\<close>

definition test_metric ::
  "('i, 'b) collaborators \<Rightarrow> real list \<Rightarrow> real list \<Rightarrow> real option \<Rightarrow> metric \<Rightarrow>
     ('i, 'b) manager \<Rightarrow> error option \<times> real option \<times> metric \<times> ('i, 'b) manager" where
  "test_metric ops pred_list label_list loss_value m mgr =
     (let assigned =
            (if name m = ''loss''
             then (case mgr_cfg mgr ''task_type'' of
                     None \<Rightarrow> (Some (KeyError ''task_type''), False, loss_value, mgr)
                   | Some t \<Rightarrow>
                       if t = StrV ''classify'' then (None, True, loss_value, mgr)
                       else (case mgr_cfg mgr ''model_type'' of
                               None \<Rightarrow> (Some (KeyError ''model_type''), False, loss_value, mgr)
                             | Some mt \<Rightarrow>
                                 if mt = StrV ''rnn'' \<or> mt = StrV ''cnn''
                                 then (case call_criterion ops pred_list label_list mgr of
                                         (Inl e, mgr1) \<Rightarrow> (Some e, False, loss_value, mgr1)
                                       | (Inr l, mgr1) \<Rightarrow> (None, False, Some l, mgr1))
                                 else (None, False, loss_value, mgr)))
             else (None, False, Some 10000000, mgr))
      in case assigned of
           (Some e, skipped, lv, mgr1) \<Rightarrow> (Some e, lv, m, mgr1)
         | (None, skipped, lv, mgr1) \<Rightarrow>
             if skipped then (None, lv, m, mgr1)
             else (case lv of
                     None \<Rightarrow> (Some (UnboundLocalError ''loss_value''), lv, m, mgr1)
                   | Some l \<Rightarrow>
                       (case metric_update ''test'' l pred_list label_list m of
                          Inl e \<Rightarrow> (Some e, lv, m, mgr1)
                        | Inr m' \<Rightarrow>
                            (case average_meter m' ''test'' of
                               None \<Rightarrow> (Some (KeyError ''test''), lv, m', mgr1)
                             | Some a \<Rightarrow>
                                 (None, lv, m',
                                  emit (Printed (FmtNum (name m' @ '': '') (meter_value a)))
                                    mgr1)))))"

fun test_metrics ::
  "('i, 'b) collaborators \<Rightarrow> real list \<Rightarrow> real list \<Rightarrow> real option \<Rightarrow> metric list \<Rightarrow>
     ('i, 'b) manager \<Rightarrow> error option \<times> metric list \<times> ('i, 'b) manager" where
  "test_metrics ops pred_list label_list loss_value [] mgr = (None, [], mgr)"
| "test_metrics ops pred_list label_list loss_value (m # ms) mgr =
     (case test_metric ops pred_list label_list loss_value m mgr of
        (Some e, lv, m', mgr1) \<Rightarrow> (Some e, m' # ms, mgr1)
      | (None, lv, m', mgr1) \<Rightarrow>
          (case test_metrics ops pred_list label_list lv ms mgr1 of
             (r, ms', mgr2) \<Rightarrow> (r, m' # ms', mgr2)))"

text \<open>
  \<^verbatim>\<open>test(return_metrics=False, load_best=True)\<close>: optionally
  \<^verbatim>\<open>self.model.load_model()\<close>, then \<^verbatim>\<open>_predict('test')\<close>, the loop over the metrics,
  the confusion matrix for task type classify, and the arrays (with the metrics when
  asked for).
\<close>

definition test ::
  "('i, 'b) collaborators \<Rightarrow> bool \<Rightarrow> bool \<Rightarrow> ('i, 'b) manager \<Rightarrow>
     (error + real list \<times> real list \<times> metric list option) \<times> ('i, 'b) manager" where
  "test ops return_metrics load_best mgr =
     (case (if load_best then call_load_model ops mgr else (None, mgr)) of
        (Some e, mgr1) \<Rightarrow> (Inl e, mgr1)
      | (None, mgr1) \<Rightarrow>
          (case manager_predict ops ''test'' mgr1 of
             (Inl e, mgr2) \<Rightarrow> (Inl e, mgr2)
           | (Inr (pred_list, label_list), mgr2) \<Rightarrow>
               (case test_metrics ops pred_list label_list None (metrics mgr2) mgr2 of
                  (Some e, ms, mgr3) \<Rightarrow> (Inl e, mgr3\<lparr>metrics := ms\<rparr>)
                | (None, ms, mgr3) \<Rightarrow>
                    (case mgr_cfg mgr3 ''task_type'' of
                       None \<Rightarrow> (Inl (KeyError ''task_type''), mgr3\<lparr>metrics := ms\<rparr>)
                     | Some t \<Rightarrow>
                         (case (if t = StrV ''classify''
                                then (case confusion_matrix ops label_list pred_list
                                             (length (mgr_class_labels mgr3)) of
                                        Inl e \<Rightarrow> (Some e, mgr3\<lparr>metrics := ms\<rparr>)
                                      | Inr cm \<Rightarrow>
                                          (None, emit (Printed_matrix cm)
                                                   (mgr3\<lparr>metrics := ms\<rparr>)))
                                else (None, mgr3\<lparr>metrics := ms\<rparr>)) of
                            (Some e, mgr4) \<Rightarrow> (Inl e, mgr4)
                          | (None, mgr4) \<Rightarrow>
                              (Inr (pred_list, label_list,
                                    if return_metrics then Some (metrics mgr4) else None),
                               mgr4))))))"

subsection \<open>A backend and a manager for evaluation\<close>

text \<open>
  A backend that predicts its inputs themselves and keeps the list of its methods that
  ran, in order.
\<close>

definition echo_backend :: "(real list, string list) collaborators" where
  "echo_backend =
     \<lparr>op_fit = (\<lambda>inputs labels phase b. (Inr (1 / 2, inputs), b @ [''fit''])),
      op_predict = (\<lambda>inputs b. (Inr inputs, b @ [''predict''])),
      op_save_model = (\<lambda>b. (None, b @ [''save_model''])),
      op_load_model = (\<lambda>b. (None, b @ [''load_model''])),
      op_anneal_lr = (\<lambda>learning_anneal b. (None, b @ [''anneal_lr''])),
      op_update_by_epoch = (\<lambda>phase b. (None, b @ [''update_by_epoch''])),
      op_criterion = (\<lambda>preds labels b. (Inr 0, b @ [''criterion''])),
      confusion_matrix = (\<lambda>labels preds n. Inr [])\<rparr>"

definition fresh_meter :: "direction \<Rightarrow> real \<Rightarrow> real \<Rightarrow> average_meter" where
  "fresh_meter d avg best =
     \<lparr>meter_value = avg, meter_sum = avg, meter_count = 1, average = avg,
      best_score = best, direction = d\<rparr>"

text \<open>
  Two metrics at the end of a phase: the save-triggering loss, whose validation average
  1/2 improves on the best 1, and the accuracy, which triggers no save.
\<close>

definition loss_metric :: metric where
  "loss_metric =
     \<lparr>name = ''loss'', metric_save_model = True, score_fn = None,
      average_meter = [''train'' \<mapsto> fresh_meter LowerIsBetter (1 / 4) 1,
                       ''val'' \<mapsto> fresh_meter LowerIsBetter (1 / 2) 1,
                       ''test'' \<mapsto> fresh_meter LowerIsBetter 0 1]\<rparr>"

definition accuracy_metric :: metric where
  "accuracy_metric =
     \<lparr>name = ''accuracy'', metric_save_model = False,
      score_fn = Some (\<lambda>preds labels. if preds = labels then 1 else 0),
      average_meter = [''train'' \<mapsto> fresh_meter HigherIsBetter (3 / 4) 0,
                       ''val'' \<mapsto> fresh_meter HigherIsBetter (3 / 4) 0,
                       ''test'' \<mapsto> fresh_meter HigherIsBetter 0 0]\<rparr>"

text \<open>
  A manager whose validation and test loaders have two batches of configured size 2,
  the second one short; the first test prediction is the value - 1000000.
\<close>

definition example_manager :: "cfg \<Rightarrow> (real list, string list) manager" where
  "example_manager c =
     \<lparr>mgr_class_labels = [''a'', ''b''], mgr_cfg = c,
      dataloaders = [''train'' \<mapsto> [([1, 0], [1, 0])],
                     ''val'' \<mapsto> [([0, - 2], [1, 0]), ([3], [1])],
                     ''test'' \<mapsto> [([- 1000000, 5], [1, 2]), ([7], [3])]],
      mgr_model = [], logger = False, metrics = [loss_metric, accuracy_metric],
      events = []\<rparr>"

section \<open>A backend that inherits from \<open>BaseModel\<close>\<close>

text \<open>
  The backend of the manager when its class takes \<open>save_model\<close>, \<open>load_model\<close>,
  \<open>anneal_lr\<close> and \<open>update_by_epoch\<close> from \<open>BaseModel\<close>; \<open>fit\<close>, \<open>predict\<close>
  and the criterion call, which \<open>BaseModel\<close> leaves to the subclasses, stay
  parameters. The backend state is the object with the world it reads and writes.
\<close>

definition BaseModel_backend ::
  "('m, 'p) inner_ops \<Rightarrow>
   ('i \<Rightarrow> real list \<Rightarrow> string \<Rightarrow> ('l, 'm) base_model \<times> 'p world \<Rightarrow>
      (error + real \<times> real list) \<times> ('l, 'm) base_model \<times> 'p world) \<Rightarrow>
   ('i \<Rightarrow> ('l, 'm) base_model \<times> 'p world \<Rightarrow>
      (error + real list) \<times> ('l, 'm) base_model \<times> 'p world) \<Rightarrow>
   (real list \<Rightarrow> real list \<Rightarrow> ('l, 'm) base_model \<times> 'p world \<Rightarrow>
      (error + real) \<times> ('l, 'm) base_model \<times> 'p world) \<Rightarrow>
   (real list \<Rightarrow> real list \<Rightarrow> nat \<Rightarrow> error + nat list list) \<Rightarrow>
   ('i, ('l, 'm) base_model \<times> 'p world) collaborators" where
  "BaseModel_backend iops fit predict crit cm =
     \<lparr>op_fit = fit,
      op_predict = predict,
      op_save_model = (\<lambda>(self, w). save_model iops self w),
      op_load_model = (\<lambda>(self, w). load_model iops self w),
      op_anneal_lr = (\<lambda>learning_anneal (self, w). (None, anneal_lr learning_anneal self, w)),
      op_update_by_epoch = (\<lambda>phase (self, w). (None, update_by_epoch phase self, w)),
      op_criterion = crit,
      confusion_matrix = cm\<rparr>"

text \<open>
  A manager around the unfitted \<open>LightGBM\<close> backend in a world without files: no
  checkpoint is present at the model path.
\<close>

definition no_checkpoint_manager ::
  "(real list, (string, best_score_dict lightgbm) base_model \<times> best_score_dict world) manager"
  where
  "no_checkpoint_manager =
     \<lparr>mgr_class_labels = [], mgr_cfg = regress_cfg,
      dataloaders = [''test'' \<mapsto> [([1, 2], [1, 2])]],
      mgr_model = (unfitted_backend, empty_world), logger = False,
      metrics = [accuracy_metric], events = []\<rparr>"


section \<open>\<^verbatim>\<open>ml/models/train_managers/ml_train_manager.py\<close>: class \<open>MLTrainManager\<close>\<close>

text \<open>
  Modelled from the spec: a \<open>Metric\<close> as this file uses it, with a single meter
  (\<^verbatim>\<open>metric.average_meter\<close>) and \<^verbatim>\<open>update(loss, predicts, labels)\<close>, which folds the
  loss itself or a score of predictions against labels into the meter.
\<close>

record phase_metric =
  pm_name :: string
  pm_score_fn :: "(real list \<Rightarrow> real list \<Rightarrow> real) option"
  pm_average_meter :: average_meter

definition phase_metric_update ::
  "real \<Rightarrow> real list \<Rightarrow> real list \<Rightarrow> phase_metric \<Rightarrow> phase_metric" where
  "phase_metric_update loss preds labels m =
     m\<lparr>pm_average_meter :=
         meter_update (case pm_score_fn m of None \<Rightarrow> loss | Some f \<Rightarrow> f preds labels)
           (pm_average_meter m)\<rparr>"

text \<open>
  The model manager (class \<open>MLModelManager\<close>, outside the source files) is a
  parameter: \<open>fit\<close> on the training arrays with an optional held-out pair,
  \<open>predict\<close> and \<open>save_model\<close>.
\<close>

record ('x, 'mm) model_manager_ops =
  mm_fit :: "'x list \<Rightarrow> real list \<Rightarrow> ('x list \<times> real list) option \<Rightarrow> 'mm \<Rightarrow>
               (error + real) \<times> 'mm"
  mm_predict :: "'x list \<Rightarrow> 'mm \<Rightarrow> (error + real list) \<times> 'mm"
  mm_save_model :: "'mm \<Rightarrow> error option \<times> 'mm"

record ('x, 'mm) ml_train_manager =
  tm_cfg :: cfg
  tm_dataloaders :: "string \<rightharpoonup> ('x list \<times> real list) list"
  model_manager :: 'mm
  tm_metrics :: "string \<rightharpoonup> phase_metric list"
  tm_events :: "event list"

definition tm_emit :: "event \<Rightarrow> ('x, 'mm) ml_train_manager \<Rightarrow> ('x, 'mm) ml_train_manager" where
  "tm_emit e tm = tm\<lparr>tm_events := tm_events tm @ [e]\<rparr>"

text \<open>The phases chosen by the two flags of \<^verbatim>\<open>train\<close>.\<close>

definition phases_of :: "bool \<Rightarrow> bool \<Rightarrow> string list" where
  "phases_of with_validate only_validate =
     (if only_validate then [''val'']
      else if with_validate then [''train'', ''val''] else [''train''])"

text \<open>Truth value of a configuration value in a condition.\<close>

fun truthy :: "cfg_val \<Rightarrow> bool" where
  "truthy (StrV s) = (s \<noteq> [])"
| "truthy (IntV n) = (n \<noteq> 0)"
| "truthy (FloatV x) = (x \<noteq> 0)"
| "truthy (FlagV b) = b"
| "truthy (FloatsV ws) = (ws \<noteq> [])"

text \<open>
  \<^verbatim>\<open>np.vstack\<close> / \<^verbatim>\<open>np.hstack\<close> of the batches of a loader: the rows of all batches
  in order, a \<^verbatim>\<open>ValueError\<close> when there is no batch.
\<close>

definition np_stack :: "'a list list \<Rightarrow> error + 'a list" where
  "np_stack arrays =
     (case arrays of
        [] \<Rightarrow> Inl (ValueError ''need at least one array to concatenate'')
      | _ # _ \<Rightarrow> Inr (concat arrays))"

text \<open>The loop that fills the dictionaries \<^verbatim>\<open>inputs\<close> and \<^verbatim>\<open>labels\<close>.\<close>

fun materialize ::
  "string list \<Rightarrow> (string \<rightharpoonup> ('x list \<times> real list) list) \<Rightarrow>
     (string \<rightharpoonup> 'x list \<times> real list) \<Rightarrow> error + (string \<rightharpoonup> 'x list \<times> real list)" where
  "materialize [] loaders acc = Inr acc"
| "materialize (phase # phases) loaders acc =
     (case loaders phase of
        None \<Rightarrow> Inl (KeyError phase)
      | Some batches \<Rightarrow>
          (case np_stack (map fst batches) of
             Inl e \<Rightarrow> Inl e
           | Inr xs \<Rightarrow>
               (case np_stack (map snd batches) of
                  Inl e \<Rightarrow> Inl e
                | Inr ys \<Rightarrow> materialize phases loaders (acc(phase \<mapsto> (xs, ys))))))"

text \<open>
  The loop \<^verbatim>\<open>for phase in phases: predicts[phase] = self.model_manager.predict(...)\<close>;
  \<^verbatim>\<open>predicts\<close> is a dictionary in insertion order.
\<close>

fun predict_phases ::
  "('x, 'mm) model_manager_ops \<Rightarrow> string list \<Rightarrow> (string \<rightharpoonup> 'x list \<times> real list) \<Rightarrow>
     (string \<times> real list) list \<Rightarrow> ('x, 'mm) ml_train_manager \<Rightarrow>
     (error + (string \<times> real list) list) \<times> ('x, 'mm) ml_train_manager" where
  "predict_phases ops [] data predicts tm = (Inr predicts, tm)"
| "predict_phases ops (phase # phases) data predicts tm =
     (case data phase of
        None \<Rightarrow> (Inl (KeyError phase), tm)
      | Some (xs, ys) \<Rightarrow>
          (case mm_predict ops xs (model_manager tm) of
             (Inl e, mm) \<Rightarrow> (Inl e, tm_emit Called_predict (tm\<lparr>model_manager := mm\<rparr>))
           | (Inr preds, mm) \<Rightarrow>
               predict_phases ops phases data
                 (AList.update phase preds predicts)
                 (tm_emit Called_predict (tm\<lparr>model_manager := mm\<rparr>))))"

text \<open>
  The branch \<^verbatim>\<open>if 'train' in phases\<close>: the single \<^verbatim>\<open>fit\<close> over the training arrays,
  with the validation arrays when \<^verbatim>\<open>self.cfg['early_stopping']\<close> holds and the phase
  \<^verbatim>\<open>val\<close> runs, then the predictions. The result holds the local variables \<^verbatim>\<open>loss\<close>
  and \<^verbatim>\<open>predicts\<close>, which stay unbound (\<open>None\<close>) when the branch does not run.
\<close>

definition fit_and_predict ::
  "('x, 'mm) model_manager_ops \<Rightarrow> string list \<Rightarrow> (string \<rightharpoonup> 'x list \<times> real list) \<Rightarrow>
     ('x, 'mm) ml_train_manager \<Rightarrow>
     (error + (real \<times> (string \<times> real list) list) option) \<times> ('x, 'mm) ml_train_manager" where
  "fit_and_predict ops phases data tm =
     (if ''train'' \<in> set phases
      then (case tm_cfg tm ''early_stopping'' of
              None \<Rightarrow> (Inl (KeyError ''early_stopping''), tm)
            | Some es \<Rightarrow>
                (case data ''train'' of
                   None \<Rightarrow> (Inl (KeyError ''train''), tm)
                 | Some (xs, ys) \<Rightarrow>
                     (case (if truthy es \<and> ''val'' \<in> set phases
                            then (case data ''val'' of
                                    None \<Rightarrow> Inl (KeyError ''val'')
                                  | Some held_out \<Rightarrow> Inr (Some held_out))
                            else Inr None) of
                        Inl e \<Rightarrow> (Inl e, tm)
                      | Inr held_out \<Rightarrow>
                          (case mm_fit ops xs ys held_out (model_manager tm) of
                             (Inl e, mm) \<Rightarrow>
                               (Inl e, tm_emit (Called_fit ''train'')
                                         (tm\<lparr>model_manager := mm\<rparr>))
                           | (Inr loss, mm) \<Rightarrow>
                               (case predict_phases ops phases data []
                                       (tm_emit (Called_fit ''train'')
                                          (tm\<lparr>model_manager := mm\<rparr>)) of
                                  (Inl e, tm1) \<Rightarrow> (Inl e, tm1)
                                | (Inr predicts, tm1) \<Rightarrow>
                                    (Inr (Some (loss, predicts)), tm1))))))
      else (Inr None, tm))"

text \<open>
  The body of the inner loop over \<^verbatim>\<open>self.metrics[phase]\<close>:
  \<^verbatim>\<open>metric.update(loss, predicts[phase], labels[phase])\<close>, then
  \<^verbatim>\<open>metric.average_meter.best_score = metric.average_meter.average\<close>.
\<close>

definition record_metric ::
  "real \<Rightarrow> real list \<Rightarrow> real list \<Rightarrow> phase_metric \<Rightarrow> phase_metric" where
  "record_metric loss preds labels m =
     (let m1 = phase_metric_update loss preds labels m
      in m1\<lparr>pm_average_meter :=
              (pm_average_meter m1)\<lparr>best_score := average (pm_average_meter m1)\<rparr>\<rparr>)"

text \<open>
  The loop over the phases around it. For a phase with at least one metric the body
  reads \<^verbatim>\<open>loss\<close> first: an \<^verbatim>\<open>UnboundLocalError\<close> when the fit branch did not run.
  The metrics are returned as they are when the loop ends or an exception leaves it.
\<close>

fun record_metrics ::
  "(real \<times> (string \<times> real list) list) option \<Rightarrow> (string \<rightharpoonup> 'x list \<times> real list) \<Rightarrow>
     string list \<Rightarrow> (string \<rightharpoonup> phase_metric list) \<Rightarrow>
     error option \<times> (string \<rightharpoonup> phase_metric list)" where
  "record_metrics locals data [] ms = (None, ms)"
| "record_metrics locals data (phase # phases) ms =
     (case ms phase of
        None \<Rightarrow> (Some (KeyError phase), ms)
      | Some metrics_of_phase \<Rightarrow>
          (case metrics_of_phase of
             [] \<Rightarrow> record_metrics locals data phases ms
           | _ # _ \<Rightarrow>
               (case locals of
                  None \<Rightarrow> (Some (UnboundLocalError ''loss''), ms)
                | Some (loss, predicts) \<Rightarrow>
                    (case map_of predicts phase of
                       None \<Rightarrow> (Some (KeyError phase), ms)
                     | Some preds \<Rightarrow>
                         (case data phase of
                            None \<Rightarrow> (Some (KeyError phase), ms)
                          | Some (xs, ys) \<Rightarrow>
                              record_metrics locals data phases
                                (ms(phase \<mapsto>
                                   map (record_metric loss preds ys) metrics_of_phase)))))))"

text \<open>
  \<^verbatim>\<open>train(model_manager=None, with_validate=True, only_validate=False)\<close>. After the
  metrics the message with the averages is logged, \<^verbatim>\<open>self.model_manager.save_model()\<close>
  is called, and the metrics are returned with the predictions of the last phase
  (\<^verbatim>\<open>list(predicts.values())[-1]\<close>, which needs \<^verbatim>\<open>predicts\<close> bound). The result
  is the value returned or the exception raised, with the manager as it is then.
\<close>

definition MLTrainManager_train ::
  "('x, 'mm) model_manager_ops \<Rightarrow> 'mm option \<Rightarrow> bool \<Rightarrow> bool \<Rightarrow>
     ('x, 'mm) ml_train_manager \<Rightarrow>
     (error + (string \<rightharpoonup> phase_metric list) \<times> real list) \<times> ('x, 'mm) ml_train_manager"
  where
  "MLTrainManager_train ops new_model_manager with_validate only_validate tm0 =
     (let tm = (case new_model_manager of None \<Rightarrow> tm0
                | Some mm \<Rightarrow> tm0\<lparr>model_manager := mm\<rparr>);
          phases = phases_of with_validate only_validate
      in case check_keys_from_dict phases (tm_dataloaders tm) of
           Some e \<Rightarrow> (Inl e, tm)
         | None \<Rightarrow>
             (case materialize phases (tm_dataloaders tm) Map.empty of
                Inl e \<Rightarrow> (Inl e, tm)
              | Inr data \<Rightarrow>
                  (case fit_and_predict ops phases data tm of
                     (Inl e, tm1) \<Rightarrow> (Inl e, tm1)
                   | (Inr locals, tm1) \<Rightarrow>
                       (case record_metrics locals data phases (tm_metrics tm1) of
                          (Some e, ms) \<Rightarrow> (Inl e, tm1\<lparr>tm_metrics := ms\<rparr>)
                        | (None, ms) \<Rightarrow>
                            (let tm2 = tm_emit (Printed (Text ''metrics message''))
                                         (tm1\<lparr>tm_metrics := ms\<rparr>)
                             in case mm_save_model ops (model_manager tm2) of
                                  (r, mm) \<Rightarrow>
                                    (let tm3 = tm_emit Called_save_model
                                                 (tm2\<lparr>model_manager := mm\<rparr>)
                                     in case r of
                                          Some e \<Rightarrow> (Inl e, tm3)
                                        | None \<Rightarrow>
                                            (case locals of
                                               None \<Rightarrow>
                                                 (Inl (UnboundLocalError ''predicts''), tm3)
                                             | Some (loss, predicts) \<Rightarrow>
                                                 (case predicts of
                                                    [] \<Rightarrow>
                                                      (Inl (IndexError
                                                         ''list index out of range''), tm3)
                                                  | _ # _ \<Rightarrow>
                                                      (Inr (ms, snd (last predicts)),
                                                       tm3)))))))))"

text \<open>
  A model manager for evaluation: it predicts the inputs themselves, scores 1/4 and
  counts its saves. The train manager has one training and one validation batch. Its
  training metric is the lower-is-better loss with average and best 0; its validation
  metric is the higher-is-better accuracy with average 1/2 and best 1.
\<close>

definition counting_model_manager :: "(real, nat) model_manager_ops" where
  "counting_model_manager =
     \<lparr>mm_fit = (\<lambda>xs ys held_out mm. (Inr (1 / 4), mm)),
      mm_predict = (\<lambda>xs mm. (Inr xs, mm)),
      mm_save_model = (\<lambda>mm. (None, Suc mm))\<rparr>"

definition example_train_manager :: "(real, nat) ml_train_manager" where
  "example_train_manager =
     \<lparr>tm_cfg = [''early_stopping'' \<mapsto> FlagV False],
      tm_dataloaders = [''train'' \<mapsto> [([1, 2], [1, 2])], ''val'' \<mapsto> [([3], [3])]],
      model_manager = 0,
      tm_metrics = [''train'' \<mapsto> [\<lparr>pm_name = ''loss'', pm_score_fn = None,
                                     pm_average_meter = fresh_meter LowerIsBetter 0 0\<rparr>],
                    ''val'' \<mapsto> [\<lparr>pm_name = ''accuracy'',
                                   pm_score_fn = Some (\<lambda>preds labels.
                                                   if preds = labels then 1 else 0),
                                   pm_average_meter =
                                     fresh_meter HigherIsBetter (1 / 2) 1\<rparr>]],
      tm_events = []\<rparr>"


section \<open>Notions used in the statements\<close>

text \<open>
  The events a call added to the manager's record; whether \<^verbatim>\<open>update_best()\<close> of a
  metric's meter for the phase returns true; and the condition of the \<^verbatim>\<open>if\<close> in
  \<^verbatim>\<open>_update_by_epoch\<close>.
\<close>

definition new_events :: "('i, 'b) manager \<Rightarrow> ('i, 'b) manager \<Rightarrow> event list" where
  "new_events mgr mgr' = drop (length (events mgr)) (events mgr')"

definition improved :: "string \<Rightarrow> metric \<Rightarrow> bool" where
  "improved phase m =
     (case average_meter m phase of None \<Rightarrow> False | Some a \<Rightarrow> fst (update_best a))"

definition saves :: "string \<Rightarrow> metric \<Rightarrow> bool" where
  "saves phase m \<longleftrightarrow> metric_save_model m \<and> improved phase m \<and> phase = ''val''"








text \<open>
  The same backend as the manager's collaborator, with a \<open>predict\<close> that returns its
  inputs.
\<close>

definition lightgbm_backend ::
  "(real list, (string, best_score_dict lightgbm) base_model \<times> best_score_dict world)
     collaborators" where
  "lightgbm_backend =
     BaseModel_backend (LightGBM_ops pickle_load)
       (\<lambda>inputs labels phase b. (Inr (0, inputs), b))
       (\<lambda>inputs b. (Inr inputs, b))
       (\<lambda>preds labels b. (Inr 0, b))
       (\<lambda>labels preds n. Inr [])"



section \<open>Construction of the backend\<close>

lemma check_cfg_result: "check_cfg c keys = Inr c' \<Longrightarrow> c' = c"
  by (induction keys) (auto split: if_splits)

lemma check_cfg_cases:
  "(\<exists>msg. check_cfg c keys = Inl (AssertionError msg)) \<or> check_cfg c keys = Inr c"
  by (induction keys) auto

text \<open>
  Claim C5. For a classify configuration whose \<open>loss_weight\<close> has another length than
  \<open>class_labels\<close>, constructing the backend fails with an \<open>AssertionError\<close>, whatever
  the required keys are: no backend object exists on which a later \<open>fit\<close> could fail.
\<close>

theorem construction_rejects_length_mismatch:
  assumes "c ''task_type'' = Some (StrV ''classify'')"
    and "c ''loss_weight'' = Some w"
    and "py_len w = Inr n"
    and "length labels \<noteq> n"
  shows "\<exists>msg. BaseModel_init labels c must_contain_keys m = Inl (AssertionError msg)"
proof -
  from check_cfg_cases [of c must_contain_keys]
  show ?thesis
  proof
    assume "\<exists>msg. check_cfg c must_contain_keys = Inl (AssertionError msg)"
    then show ?thesis by (auto simp: BaseModel_init_def)
  next
    assume "check_cfg c must_contain_keys = Inr c"
    with assms show ?thesis
      by (simp add: BaseModel_init_def set_criterion_def)
  qed
qed

theorem construction_rejects_length_mismatch_witness:
  "\<exists>msg. BaseModel_init [''a'', ''b'', ''c''] (classify_cfg [1, 2])
            [''task_type'', ''model_path''] () = Inl (AssertionError msg)"
  using construction_rejects_length_mismatch
    [of "classify_cfg [1, 2]" "FloatsV [1, 2]" 2 "[''a'', ''b'', ''c'']"
        "[''task_type'', ''model_path'']" "()"]
  by (simp add: classify_cfg_def)

text \<open>
  Claim C6. Whenever construction succeeds, the bound criterion is the mean-squared-error
  loss for task type \<open>regress\<close>, and for task type \<open>classify\<close> the (binary)
  cross-entropy loss \<^verbatim>\<open>BCELoss\<close> whose weight is the configured \<open>loss_weight\<close>.
\<close>

theorem criterion_selection:
  assumes "BaseModel_init labels c must_contain_keys m = Inr b"
  shows "(c ''task_type'' = Some (StrV ''regress'') \<longrightarrow> criterion b = MSELoss) \<and>
         (c ''task_type'' = Some (StrV ''classify'') \<longrightarrow>
            (\<exists>w ws. c ''loss_weight'' = Some w \<and> torch_tensor w = Inr ws \<and>
                    criterion b = BCELoss ws))"
proof -
  from assms obtain c' where c': "check_cfg c must_contain_keys = Inr c'"
    by (auto simp: BaseModel_init_def split: sum.splits)
  then have [simp]: "c' = c" by (rule check_cfg_result)
  from assms c' obtain crit where crit: "set_criterion labels c = Inr crit"
    and b: "criterion b = crit"
    by (auto simp: BaseModel_init_def split: sum.splits)
  from crit b show ?thesis
    by (auto simp: set_criterion_def split: option.splits sum.splits if_splits)
qed

theorem criterion_selection_witness:
  "(\<exists>b. BaseModel_init [''a'', ''b''] (classify_cfg [1, 3]) [''task_type''] () = Inr b \<and>
        criterion b = BCELoss [1, 3]) \<and>
   (\<exists>b. BaseModel_init ([]::string list) regress_cfg [''task_type''] () = Inr b \<and> criterion b = MSELoss)"
proof -
  have 1: "BaseModel_init [''a'', ''b''] (classify_cfg [1, 3]) [''task_type''] () =
        Inr \<lparr>class_labels = [''a'', ''b''], cfg = classify_cfg [1, 3],
             criterion = BCELoss [1, 3], fitted = False, model = ()\<rparr>"
    by (simp add: BaseModel_init_def set_criterion_def classify_cfg_def)
  have 2: "BaseModel_init ([]::string list) regress_cfg [''task_type''] () =
        Inr \<lparr>class_labels = [], cfg = regress_cfg,
             criterion = MSELoss, fitted = False, model = ()\<rparr>"
    by (simp add: BaseModel_init_def set_criterion_def regress_cfg_def)
  from criterion_selection [OF 1]
  have a: "criterion \<lparr>class_labels = [''a'', ''b''], cfg = classify_cfg [1, 3],
             criterion = BCELoss [1, 3], fitted = False, model = ()\<rparr> = BCELoss [1, 3]"
    by (simp add: classify_cfg_def)
  from criterion_selection [OF 2]
  have b: "criterion \<lparr>class_labels = ([]::string list), cfg = regress_cfg,
             criterion = MSELoss, fitted = False, model = ()\<rparr> = MSELoss"
    by (simp add: regress_cfg_def)
  from 1 a have "\<exists>b. BaseModel_init [''a'', ''b''] (classify_cfg [1, 3]) [''task_type''] () = Inr b \<and>
        criterion b = BCELoss [1, 3]"
    by blast
  moreover from 2 b
  have "\<exists>b. BaseModel_init ([]::string list) regress_cfg [''task_type''] () = Inr b \<and>
        criterion b = MSELoss"
    by blast
  ultimately show ?thesis by blast
qed

section \<open>The fitted flag and \<open>save_model\<close>\<close>

text \<open>
  Claim C3, as the code has it. \<open>save_model\<close> of the backend never reads the fitted
  flag: with the flag set to any value it does what it does otherwise (the delegated
  \<^verbatim>\<open>self.model.save_model(self.cfg['model_path'])\<close>, with the same outcome and the same
  files), so an unfitted backend is saved like a fitted one.
\<close>

theorem save_model_ignores_fitted:
  "save_model iops (self\<lparr>fitted := f\<rparr>) w =
     (case save_model iops self w of (r, self', w') \<Rightarrow> (r, self'\<lparr>fitted := f\<rparr>, w'))"
  by (simp add: save_model_def split: option.splits prod.splits)

text \<open>
  The claim as stated fails: the backend just constructed around a \<open>LightGBM\<close>
  predictor is unfitted, and \<open>save_model\<close> raises nothing and writes the unfitted
  estimator to the model path.
\<close>

theorem save_model_unfitted_counterexample:
  "BaseModel_init [] regress_cfg [''task_type'', ''model_path''] unfitted_lightgbm =
     Inr unfitted_backend \<and>
   \<not> fitted unfitted_backend \<and>
   fst (save_model (LightGBM_ops pickle_load) unfitted_backend empty_world) = None \<and>
   fst (save_model (LightGBM_ops pickle_load) unfitted_backend empty_world)
     \<noteq> Some ModelNotFittedError \<and>
   files (snd (snd (save_model (LightGBM_ops pickle_load) unfitted_backend empty_world)))
     (StrV ''out/model.pkl'') = Some []"
  by (simp add: BaseModel_init_def set_criterion_def regress_cfg_def unfitted_backend_def
      save_model_def LightGBM_ops_def LightGBM_save_model_def empty_world_def
      unfitted_lightgbm_def)


section \<open>What \<open>LightGBM.fit\<close> returns\<close>

lemma LightGBM_fit_never_returns_score:
  "LightGBM_fit lib x y eval_x eval_y self \<noteq> Inr (PyFloat score, self')"
  by (auto simp: LightGBM_fit_def Let_def split: sum.splits)

text \<open>
  Claim C8, evaluated on the code. Fitted on a training pair with a held-out pair,
  \<open>LightGBM.fit\<close> returns the name of the last evaluation set, the string
  \<open>valid_1\<close>, where the claim has a scalar score.
\<close>

theorem LightGBM_fit_returns_name:
  "LightGBM_fit example_library [1, 2] [3, 4] (Some [5]) [6] unfitted_lightgbm =
     Inr (PyStr ''valid_1'',
          unfitted_lightgbm\<lparr>lgb_model := [(''training'', [(''rmse'', 1 / 2)]),
                                           (''valid_1'', [(''rmse'', 1 / 2)])]\<rparr>)"
  by (simp add: LightGBM_fit_def example_library_def last_key_def unfitted_lightgbm_def upt_rec)


section \<open>The end of a phase: \<^verbatim>\<open>_update_by_epoch\<close>\<close>

lemma call_save_model_result:
  assumes "call_save_model ops mgr = (r, mgr')"
  shows "mgr_cfg mgr' = mgr_cfg mgr \<and> events mgr' = events mgr @ [Called_save_model]"
  using assms by (auto simp: call_save_model_def emit_def split: prod.splits)

lemma call_anneal_lr_result:
  assumes "call_anneal_lr ops la mgr = (r, mgr')"
  shows "mgr_cfg mgr' = mgr_cfg mgr" and "events mgr' = events mgr @ [Called_anneal_lr la]"
    and "metrics mgr' = metrics mgr"
  using assms by (auto simp: call_anneal_lr_def emit_def split: prod.splits)

lemma update_metric_by_epoch_result:
  assumes "update_metric_by_epoch ops phase m mgr = (r, m', mgr')"
  shows "mgr_cfg mgr' = mgr_cfg mgr"
    and "\<not> saves phase m \<Longrightarrow> events mgr' = events mgr"
    and "saves phase m \<Longrightarrow> mgr_cfg mgr ''model_path'' = Some path \<Longrightarrow>
           events mgr' = events mgr @
             [Printed (Fmt ''Found better validated model, saving to '' path), Called_save_model]"
    and "\<exists>es. events mgr' = events mgr @ es \<and>
           set es \<subseteq> insert Called_save_model (range Printed) \<and>
           (Called_save_model \<in> set es \<longrightarrow> saves phase m)"
    and "r \<noteq> None \<Longrightarrow> average_meter m phase \<noteq> None \<Longrightarrow>
           mgr_cfg mgr ''model_path'' \<noteq> None \<Longrightarrow> saves phase m"
    and "r \<noteq> None \<Longrightarrow> average_meter m phase \<noteq> None \<Longrightarrow> phase = ''val''"
  using assms
  by (auto simp: update_metric_by_epoch_def saves_def improved_def Let_def emit_def
      split: option.splits prod.splits if_splits dest!: call_save_model_result)

lemma update_metrics_by_epoch_cfg:
  "update_metrics_by_epoch ops phase ms mgr = (r, ms', mgr') \<Longrightarrow> mgr_cfg mgr' = mgr_cfg mgr"
proof (induction ms arbitrary: mgr r ms' mgr')
  case Nil
  then show ?case by simp
next
  case (Cons m ms)
  from Cons.prems show ?case
    by (auto split: option.splits prod.splits
        dest!: Cons.IH update_metric_by_epoch_result(1))
qed

lemma update_metrics_by_epoch_events:
  "update_metrics_by_epoch ops phase ms mgr = (r, ms', mgr') \<Longrightarrow>
     \<exists>es. events mgr' = events mgr @ es \<and>
          set es \<subseteq> insert Called_save_model (range Printed) \<and>
          (Called_save_model \<in> set es \<longrightarrow> (\<exists>m\<in>set ms. saves phase m))"
proof (induction ms arbitrary: mgr r ms' mgr')
  case Nil
  then show ?case by simp
next
  case (Cons m ms)
  obtain r1 m1 mgr1 where b: "update_metric_by_epoch ops phase m mgr = (r1, m1, mgr1)"
    by (cases "update_metric_by_epoch ops phase m mgr") auto
  from update_metric_by_epoch_result(4) [OF b]
  obtain es1 where es1: "events mgr1 = events mgr @ es1"
    "set es1 \<subseteq> insert Called_save_model (range Printed)"
    "Called_save_model \<in> set es1 \<longrightarrow> saves phase m"
    by blast
  show ?case
  proof (cases r1)
    case (Some e)
    with Cons.prems b have "mgr' = mgr1" by simp
    with es1 show ?thesis by auto
  next
    case None
    obtain r2 ms2 mgr2 where l: "update_metrics_by_epoch ops phase ms mgr1 = (r2, ms2, mgr2)"
      by (cases "update_metrics_by_epoch ops phase ms mgr1") auto
    from Cons.IH [OF l]
    obtain es2 where es2: "events mgr2 = events mgr1 @ es2"
      "set es2 \<subseteq> insert Called_save_model (range Printed)"
      "Called_save_model \<in> set es2 \<longrightarrow> (\<exists>m\<in>set ms. saves phase m)"
      by blast
    from Cons.prems b None l have "mgr' = mgr2" by simp
    with es1 es2 have "events mgr' = events mgr @ (es1 @ es2)" by simp
    moreover from es1 es2 have "set (es1 @ es2) \<subseteq> insert Called_save_model (range Printed)"
      by auto
    moreover from es1 es2
    have "Called_save_model \<in> set (es1 @ es2) \<longrightarrow> (\<exists>m\<in>set (m # ms). saves phase m)"
      by auto
    ultimately show ?thesis by blast
  qed
qed

lemma update_metrics_by_epoch_saves:
  assumes "update_metrics_by_epoch ops phase ms mgr = (r, ms', mgr')"
    and "mgr_cfg mgr ''model_path'' \<noteq> None"
    and "\<forall>m\<in>set ms. average_meter m phase \<noteq> None"
  shows "\<exists>es. events mgr' = events mgr @ es \<and>
          set es \<subseteq> insert Called_save_model (range Printed) \<and>
          (Called_save_model \<in> set es \<longleftrightarrow> (\<exists>m\<in>set ms. saves phase m))"
  using assms
proof (induction ms arbitrary: mgr r ms' mgr')
  case Nil
  then show ?case by simp
next
  case (Cons m ms)
  obtain r1 m1 mgr1 where b: "update_metric_by_epoch ops phase m mgr = (r1, m1, mgr1)"
    by (cases "update_metric_by_epoch ops phase m mgr") auto
  from Cons.prems(2) obtain path where path: "mgr_cfg mgr ''model_path'' = Some path"
    by auto
  have cfg1: "mgr_cfg mgr1 = mgr_cfg mgr"
    by (rule update_metric_by_epoch_result(1) [OF b])
  define es1 where "es1 = (if saves phase m
     then [Printed (Fmt ''Found better validated model, saving to '' path), Called_save_model]
     else [])"
  have es1: "events mgr1 = events mgr @ es1"
    using update_metric_by_epoch_result(2,3) [OF b] path by (simp add: es1_def)
  have sub1: "set es1 \<subseteq> insert Called_save_model (range Printed)"
    and in1: "Called_save_model \<in> set es1 \<longleftrightarrow> saves phase m"
    by (auto simp: es1_def)
  show ?case
  proof (cases r1)
    case (Some e)
    with Cons.prems(1) b have "mgr' = mgr1" by simp
    moreover from update_metric_by_epoch_result(5) [OF b] Some Cons.prems(2,3)
    have "saves phase m" by simp
    ultimately show ?thesis using es1 sub1 in1 by auto
  next
    case None
    obtain r2 ms2 mgr2 where l: "update_metrics_by_epoch ops phase ms mgr1 = (r2, ms2, mgr2)"
      by (cases "update_metrics_by_epoch ops phase ms mgr1") auto
    from Cons.prems(1) b None l have eq: "mgr' = mgr2" by simp
    from Cons.IH [OF l] cfg1 Cons.prems(2,3)
    obtain es2 where es2: "events mgr2 = events mgr1 @ es2"
      "set es2 \<subseteq> insert Called_save_model (range Printed)"
      "Called_save_model \<in> set es2 \<longleftrightarrow> (\<exists>m\<in>set ms. saves phase m)"
      by auto
    from es1 es2 eq have "events mgr' = events mgr @ (es1 @ es2)" by simp
    moreover from sub1 es2 have "set (es1 @ es2) \<subseteq> insert Called_save_model (range Printed)"
      by auto
    moreover from in1 es2
    have "Called_save_model \<in> set (es1 @ es2) \<longleftrightarrow> (\<exists>m\<in>set (m # ms). saves phase m)"
      by auto
    ultimately show ?thesis by blast
  qed
qed

lemma update_metrics_by_epoch_not_val:
  assumes "update_metrics_by_epoch ops phase ms mgr = (r, ms', mgr')"
    and "phase \<noteq> ''val''"
    and "\<forall>m\<in>set ms. average_meter m phase \<noteq> None"
  shows "r = None \<and> events mgr' = events mgr"
  using assms
proof (induction ms arbitrary: mgr r ms' mgr')
  case Nil
  then show ?case by simp
next
  case (Cons m ms)
  obtain r1 m1 mgr1 where b: "update_metric_by_epoch ops phase m mgr = (r1, m1, mgr1)"
    by (cases "update_metric_by_epoch ops phase m mgr") auto
  from Cons.prems(2) have ns: "\<not> saves phase m" by (simp add: saves_def)
  from update_metric_by_epoch_result(6) [OF b] Cons.prems(2,3) have r1: "r1 = None"
    by (cases r1) auto
  from update_metric_by_epoch_result(2) [OF b ns] have e1: "events mgr1 = events mgr" .
  obtain r2 ms2 mgr2 where l: "update_metrics_by_epoch ops phase ms mgr1 = (r2, ms2, mgr2)"
    by (cases "update_metrics_by_epoch ops phase ms mgr1") auto
  from Cons.prems(1) b r1 l have eq: "mgr' = mgr2" "r = r2" by simp_all
  from Cons.IH [OF l] Cons.prems(2,3) e1 eq show ?case by simp
qed

lemma manager_update_by_epoch_events:
  assumes "manager_update_by_epoch ops phase epoch la mgr = (r, mgr')"
    and "update_metrics_by_epoch ops phase (metrics mgr) mgr = (r1, ms1, mgr1)"
  shows "\<exists>es. events mgr' = events mgr1 @ es \<and>
           (es = [] \<or> es = [Called_anneal_lr la] \<and> phase = ''train'' \<and> r1 = None \<or>
            es = [Printed (FmtNum ''epoch ended: '' (real epoch))] \<and> phase = ''val'') \<and>
           (phase = ''train'' \<and> r1 = None \<longrightarrow> es = [Called_anneal_lr la])"
  using assms
  by (auto simp: manager_update_by_epoch_def emit_def
      split: option.splits prod.splits if_splits dest!: call_anneal_lr_result(2))

text \<open>
  Claim C1, as the code has it in the epoch loop of \<open>BaseModelManager\<close>. When the
  configuration has a model path and every metric has a meter for the phase, the end of
  a phase calls \<open>save_model\<close> of the backend if and only if the phase is \<open>val\<close>
  and \<open>update_best()\<close> returned true for some save-triggering metric; at the end of
  any other phase it is not called, whatever improved. (The train manager for one-shot
  backends saves without any condition: see the section on \<open>MLTrainManager.train\<close>.)
\<close>

theorem save_model_iff_val_improved:
  assumes "mgr_cfg mgr ''model_path'' \<noteq> None"
    and "\<forall>m\<in>set (metrics mgr). average_meter m phase \<noteq> None"
  shows "Called_save_model \<in>
           set (new_events mgr (snd (manager_update_by_epoch ops phase epoch la mgr))) \<longleftrightarrow>
         phase = ''val'' \<and> (\<exists>m\<in>set (metrics mgr). metric_save_model m \<and> improved phase m)"
proof -
  obtain r mgr' where u: "manager_update_by_epoch ops phase epoch la mgr = (r, mgr')"
    by (cases "manager_update_by_epoch ops phase epoch la mgr") auto
  obtain r1 ms1 mgr1 where l: "update_metrics_by_epoch ops phase (metrics mgr) mgr = (r1, ms1, mgr1)"
    by (cases "update_metrics_by_epoch ops phase (metrics mgr) mgr") auto
  from update_metrics_by_epoch_saves [OF l assms]
  obtain es1 where es1: "events mgr1 = events mgr @ es1"
    "Called_save_model \<in> set es1 \<longleftrightarrow> (\<exists>m\<in>set (metrics mgr). saves phase m)"
    by blast
  from manager_update_by_epoch_events [OF u l]
  obtain es2 where es2: "events mgr' = events mgr1 @ es2" "Called_save_model \<notin> set es2"
    by auto
  from es1 es2 have "new_events mgr mgr' = es1 @ es2"
    by (simp add: new_events_def)
  with es1(2) es2(2) u show ?thesis
    by (auto simp: saves_def)
qed

theorem save_model_iff_val_improved_witness:
  "Called_save_model \<in> set (new_events (example_manager regress_cfg)
     (snd (manager_update_by_epoch echo_backend ''val'' 0 (FloatV (11 / 10))
        (example_manager regress_cfg)))) \<and>
   Called_save_model \<notin> set (new_events (example_manager regress_cfg)
     (snd (manager_update_by_epoch echo_backend ''train'' 0 (FloatV (11 / 10))
        (example_manager regress_cfg))))"
  using save_model_iff_val_improved
      [of "example_manager regress_cfg" "''val''" echo_backend 0 "FloatV (11 / 10)"]
    save_model_iff_val_improved
      [of "example_manager regress_cfg" "''train''" echo_backend 0 "FloatV (11 / 10)"]
  by (simp add: example_manager_def loss_metric_def accuracy_metric_def regress_cfg_def
      improved_def fresh_meter_def update_best_def improves_def)

text \<open>
  Claim C7, as the code has it. When every metric has a meter for the phase, the end of
  a \<open>train\<close> phase calls \<open>anneal_lr(learning_anneal)\<close> of the backend, and that
  is all it does to the outside; the end of any other phase makes no such call; and no
  end of phase calls \<open>update_by_epoch\<close> of the backend.
\<close>

theorem anneal_lr_after_train_only:
  assumes "\<forall>m\<in>set (metrics mgr). average_meter m phase \<noteq> None"
  shows "(phase = ''train'' \<longrightarrow>
            new_events mgr (snd (manager_update_by_epoch ops phase epoch la mgr)) =
              [Called_anneal_lr la]) \<and>
         (phase \<noteq> ''train'' \<longrightarrow>
            (\<forall>x. Called_anneal_lr x \<notin>
               set (new_events mgr (snd (manager_update_by_epoch ops phase epoch la mgr))))) \<and>
         (\<forall>p. Called_update_by_epoch p \<notin>
               set (new_events mgr (snd (manager_update_by_epoch ops phase epoch la mgr))))"
proof -
  obtain r mgr' where u: "manager_update_by_epoch ops phase epoch la mgr = (r, mgr')"
    by (cases "manager_update_by_epoch ops phase epoch la mgr") auto
  obtain r1 ms1 mgr1 where l: "update_metrics_by_epoch ops phase (metrics mgr) mgr = (r1, ms1, mgr1)"
    by (cases "update_metrics_by_epoch ops phase (metrics mgr) mgr") auto
  from update_metrics_by_epoch_events [OF l]
  obtain es1 where es1: "events mgr1 = events mgr @ es1"
    "set es1 \<subseteq> insert Called_save_model (range Printed)"
    "Called_save_model \<in> set es1 \<longrightarrow> (\<exists>m\<in>set (metrics mgr). saves phase m)"
    by blast
  from manager_update_by_epoch_events [OF u l]
  obtain es2 where es2: "events mgr' = events mgr1 @ es2"
    "es2 = [] \<or> es2 = [Called_anneal_lr la] \<and> phase = ''train'' \<and> r1 = None \<or>
     es2 = [Printed (FmtNum ''epoch ended: '' (real epoch))] \<and> phase = ''val''"
    "phase = ''train'' \<and> r1 = None \<longrightarrow> es2 = [Called_anneal_lr la]"
    by auto
  from es1 es2 have new: "new_events mgr mgr' = es1 @ es2"
    by (simp add: new_events_def)
  have train: "phase = ''train'' \<Longrightarrow> es1 = [] \<and> r1 = None"
    using update_metrics_by_epoch_not_val [OF l _ assms] es1(1) by simp
  from new es1(2) es2(2,3) train u show ?thesis
    by auto
qed


theorem anneal_lr_after_train_only_witness:
  "new_events (example_manager regress_cfg)
     (snd (manager_update_by_epoch echo_backend ''train'' 0 (FloatV (11 / 10))
        (example_manager regress_cfg))) = [Called_anneal_lr (FloatV (11 / 10))] \<and>
   (\<forall>x. Called_anneal_lr x \<notin> set (new_events (example_manager regress_cfg)
     (snd (manager_update_by_epoch echo_backend ''val'' 0 (FloatV (11 / 10))
        (example_manager regress_cfg)))))"
  using anneal_lr_after_train_only
      [of "example_manager regress_cfg" "''train''" echo_backend 0 "FloatV (11 / 10)"]
    anneal_lr_after_train_only
      [of "example_manager regress_cfg" "''val''" echo_backend 0 "FloatV (11 / 10)"]
  by (simp add: example_manager_def loss_metric_def accuracy_metric_def)

text \<open>
  The claim as stated fails on the second call it names: at the end of the train phase
  the only call to the backend is \<open>anneal_lr\<close>, and the backend's own record of the
  methods that ran has no \<open>update_by_epoch\<close>.
\<close>

theorem update_by_epoch_hook_not_called_counterexample:
  "events (snd (manager_update_by_epoch echo_backend ''train'' 0 (FloatV (11 / 10))
             (example_manager regress_cfg))) = [Called_anneal_lr (FloatV (11 / 10))] \<and>
   mgr_model (snd (manager_update_by_epoch echo_backend ''train'' 0 (FloatV (11 / 10))
             (example_manager regress_cfg))) = [''anneal_lr'']"
  by (simp add: manager_update_by_epoch_def update_metric_by_epoch_def example_manager_def
      loss_metric_def accuracy_metric_def fresh_meter_def update_best_def improves_def
      call_anneal_lr_def emit_def echo_backend_def Let_def)


section \<open>Prediction aggregation: \<^verbatim>\<open>_predict\<close>\<close>

lemma assign_slice_fresh:
  assumes "length vals \<le> B"
  shows "assign_slice (pre @ replicate (Suc n * B) s) (length pre) vals =
           Inr ((pre @ vals @ replicate (B - length vals) s) @ replicate (n * B) s)"
proof -
  from assms have "Suc n * B - length vals = (B - length vals) + n * B"
    by simp
  then have "replicate (Suc n * B - length vals) s =
      replicate (B - length vals) s @ replicate (n * B) s"
    by (simp only: replicate_add)
  moreover from assms have "min (length pre + length vals) (length pre + Suc n * B) =
      length pre + length vals"
    by simp
  ultimately show ?thesis
    by (simp add: assign_slice_def Let_def)
qed

lemma call_predict_result:
  assumes "fst (op_predict ops x (mgr_model mgr)) = Inr ps"
  shows "\<exists>mgr1. call_predict ops x mgr = (Inr ps, mgr1)"
  using assms by (auto simp: call_predict_def split: prod.splits)

lemma predict_batches_filter:
  assumes "\<forall>x b. fst (op_predict ops x b) = Inr (f x)"
    and "\<forall>(x, ls)\<in>set batches. length (f x) \<le> B \<and> length ls \<le> B"
    and "length pp = i * B" and "length pl = i * B"
  shows "\<exists>ps ls mgr'.
           predict_batches ops B d i batches
             (pp @ replicate (length batches * B) s, pl @ replicate (length batches * B) s)
             mgr = (Inr (ps, ls), mgr') \<and>
           filter (\<lambda>v. v \<noteq> s) ps =
             filter (\<lambda>v. v \<noteq> s)
               (pp @ map (np_cast d) (concat (map (\<lambda>(x, ls). f x) batches))) \<and>
           filter (\<lambda>v. v \<noteq> s) ls =
             filter (\<lambda>v. v \<noteq> s)
               (pl @ map (np_cast d) (concat (map snd batches)))"
  using assms(2-)
proof (induction batches arbitrary: i pp pl mgr)
  case Nil
  then show ?case by simp
next
  case (Cons batch rest)
  obtain x labs where batch: "batch = (x, labs)" by (cases batch)
  let ?vp = "map (np_cast d) (f x)"
  let ?vl = "map (np_cast d) labs"
  from Cons.prems(1) batch have len: "length ?vp \<le> B" "length ?vl \<le> B" by simp_all
  from assms(1) have "fst (op_predict ops x (mgr_model mgr)) = Inr (f x)" by simp
  from call_predict_result [OF this]
  obtain mgr1 where cp: "call_predict ops x mgr = (Inr (f x), mgr1)" by blast
  let ?pp = "pp @ ?vp @ replicate (B - length ?vp) s"
  let ?pl = "pl @ ?vl @ replicate (B - length ?vl) s"
  have a1: "assign_slice (pp @ replicate (Suc (length rest) * B) s) (i * B) ?vp =
      Inr (?pp @ replicate (length rest * B) s)"
    using assign_slice_fresh [OF len(1), of pp "length rest" s] Cons.prems(2) by simp
  have a2: "assign_slice (pl @ replicate (Suc (length rest) * B) s) (i * B) ?vl =
      Inr (?pl @ replicate (length rest * B) s)"
    using assign_slice_fresh [OF len(2), of pl "length rest" s] Cons.prems(3) by simp
  have l1: "length ?pp = Suc i * B" "length ?pl = Suc i * B"
    using len Cons.prems(2,3) by simp_all
  from Cons.prems(1) have rest: "\<forall>(x, ls)\<in>set rest. length (f x) \<le> B \<and> length ls \<le> B"
    by simp
  from Cons.IH [OF rest l1, of mgr1]
  obtain ps ls mgr' where r:
    "predict_batches ops B d (Suc i) rest
       (?pp @ replicate (length rest * B) s, ?pl @ replicate (length rest * B) s) mgr1 =
       (Inr (ps, ls), mgr')"
    "filter (\<lambda>v. v \<noteq> s) ps =
       filter (\<lambda>v. v \<noteq> s) (?pp @ map (np_cast d) (concat (map (\<lambda>(x, ls). f x) rest)))"
    "filter (\<lambda>v. v \<noteq> s) ls =
       filter (\<lambda>v. v \<noteq> s) (?pl @ map (np_cast d) (concat (map snd rest)))"
    by blast
  have "predict_batches ops B d i (batch # rest)
      (pp @ replicate (length (batch # rest) * B) s,
       pl @ replicate (length (batch # rest) * B) s) mgr = (Inr (ps, ls), mgr')"
    using cp a1 a2 r(1) batch by simp
  moreover have "filter (\<lambda>v. v \<noteq> s) ps =
      filter (\<lambda>v. v \<noteq> s)
        (pp @ map (np_cast d) (concat (map (\<lambda>(x, ls). f x) (batch # rest))))"
    using r(2) batch by simp
  moreover have "filter (\<lambda>v. v \<noteq> s) ls =
      filter (\<lambda>v. v \<noteq> s) (pl @ map (np_cast d) (concat (map snd (batch # rest))))"
    using r(3) batch by simp
  ultimately show ?case by blast
qed

lemma manager_predict_result:
  assumes "dataloaders mgr phase = Some batches"
    and "mgr_cfg mgr ''batch_size'' = Some (IntV (int B))"
    and "mgr_cfg mgr ''task_type'' = Some t"
    and "\<forall>x b. fst (op_predict ops x b) = Inr (f x)"
    and "\<forall>(x, ls)\<in>set batches. length (f x) \<le> B \<and> length ls \<le> B"
  shows "fst (manager_predict ops phase mgr) =
           Inr (filter (\<lambda>v. v \<noteq> sentinel)
                  (map (np_cast (t = StrV ''classify''))
                     (concat (map (\<lambda>(x, ls). f x) batches))),
                filter (\<lambda>v. v \<noteq> sentinel)
                  (map (np_cast (t = StrV ''classify'')) (concat (map snd batches))))"
proof -
  from predict_batches_filter [OF assms(4,5), of "[]" 0 "[]" "t = StrV ''classify''"
      sentinel mgr]
  obtain ps ls mgr' where r:
    "predict_batches ops B (t = StrV ''classify'') 0 batches
       (replicate (length batches * B) sentinel, replicate (length batches * B) sentinel)
       mgr = (Inr (ps, ls), mgr')"
    "filter (\<lambda>v. v \<noteq> sentinel) ps =
       filter (\<lambda>v. v \<noteq> sentinel)
         (map (np_cast (t = StrV ''classify'')) (concat (map (\<lambda>(x, ls). f x) batches)))"
    "filter (\<lambda>v. v \<noteq> sentinel) ls =
       filter (\<lambda>v. v \<noteq> sentinel)
         (map (np_cast (t = StrV ''classify'')) (concat (map snd batches)))"
    by auto
  have "\<not> int (length batches) * int B < 0"
    by (metis of_nat_0_le_iff mult_nonneg_nonneg not_less)
  with assms(1-3) r show ?thesis
    by (simp add: manager_predict_def Let_def)
qed

text \<open>
  Claim C2, as the code has it. Let the loader of the phase yield batches of at most the
  configured size (any of them may be short), and let no prediction and no label be
  stored as the fill value - 1000000. Then \<open>_predict\<close> returns every prediction and
  every label, once each and in order, as stored in the buffer's dtype: the lengths are
  the true sample count. Zero and the other negative values are kept.
\<close>

theorem predict_returns_all_samples:
  assumes "dataloaders mgr phase = Some batches"
    and "mgr_cfg mgr ''batch_size'' = Some (IntV (int B))"
    and "mgr_cfg mgr ''task_type'' = Some t"
    and "\<forall>x b. fst (op_predict ops x b) = Inr (f x)"
    and "\<forall>(x, ls)\<in>set batches. length (f x) \<le> B \<and> length ls \<le> B"
    and "\<forall>(x, ls)\<in>set batches.
           sentinel \<notin> np_cast (t = StrV ''classify'') ` (set (f x) \<union> set ls)"
  shows "fst (manager_predict ops phase mgr) =
           Inr (map (np_cast (t = StrV ''classify'')) (concat (map (\<lambda>(x, ls). f x) batches)),
                map (np_cast (t = StrV ''classify'')) (concat (map snd batches)))"
proof -
  have "\<forall>v\<in>set (map (np_cast (t = StrV ''classify''))
                   (concat (map (\<lambda>(x, ls). f x) batches))). v \<noteq> sentinel"
    using assms(6) by fastforce
  then have p: "filter (\<lambda>v. v \<noteq> sentinel)
       (map (np_cast (t = StrV ''classify'')) (concat (map (\<lambda>(x, ls). f x) batches))) =
       map (np_cast (t = StrV ''classify'')) (concat (map (\<lambda>(x, ls). f x) batches))"
    by (simp only: filter_True)
  have "\<forall>v\<in>set (map (np_cast (t = StrV ''classify'')) (concat (map snd batches))).
          v \<noteq> sentinel"
    using assms(6) by fastforce
  then have l: "filter (\<lambda>v. v \<noteq> sentinel)
       (map (np_cast (t = StrV ''classify'')) (concat (map snd batches))) =
       map (np_cast (t = StrV ''classify'')) (concat (map snd batches))"
    by (simp only: filter_True)
  from manager_predict_result [OF assms(1-5)] p l show ?thesis by simp
qed

lemma echo_predict: "\<forall>x b. fst (op_predict echo_backend x b) = Inr ((\<lambda>x. x) x)"
  by (simp add: echo_backend_def)

theorem predict_returns_all_samples_witness:
  "fst (manager_predict echo_backend ''val'' (example_manager regress_cfg)) =
     Inr ([0, - 2, 3], [1, 0, 1])"
  using predict_returns_all_samples
    [of "example_manager regress_cfg" "''val''" "[([0, - 2], [1, 0]), ([3], [1])]" 2
        "StrV ''regress''" echo_backend "\<lambda>x. x"]
  by (simp add: example_manager_def regress_cfg_def echo_backend_def np_cast_def sentinel_def)

text \<open>
  The claim as stated fails for a legitimate prediction equal to the fill value: of three
  test samples in two batches, the one predicted as - 1000000 is dropped, and two
  predictions are returned with three labels.
\<close>

theorem predict_drops_sentinel_valued_counterexample:
  "fst (manager_predict echo_backend ''test'' (example_manager regress_cfg)) =
     Inr ([5, 7], [1, 2, 3])"
  using manager_predict_result
    [of "example_manager regress_cfg" "''test''" "[([- 1000000, 5], [1, 2]), ([7], [3])]" 2
        "StrV ''regress''" echo_backend "\<lambda>x. x"]
  by (simp add: example_manager_def regress_cfg_def echo_backend_def np_cast_def sentinel_def)


section \<open>The one-shot training path: \<open>MLTrainManager.train\<close>\<close>








text \<open>With \<open>only_validate\<close> no call returns: nothing binds \<open>loss\<close> and \<open>predicts\<close>.\<close>

lemma train_only_validate_fails:
  "fst (MLTrainManager_train ops new_model_manager with_validate True tm) \<noteq> Inr r"
  by (auto simp: MLTrainManager_train_def Let_def phases_of_def fit_and_predict_def
      split: option.splits sum.splits prod.splits list.splits)

text \<open>
  The claim C1 as stated fails for this training path: run on the training phase alone,
  with no validation phase and no call of \<open>update_best()\<close>, the call saves the
  model once; the lower-is-better loss went from the best 0 to the average 1/8, which
  is no improvement, and is stored as best all the same.
\<close>

theorem train_saves_without_val_counterexample:
  "(case MLTrainManager_train counting_model_manager None False False example_train_manager of
      (Inl e, tm') \<Rightarrow> False
    | (Inr (ms, preds), tm') \<Rightarrow>
        tm_events tm' = [Called_fit ''train'', Called_predict,
                         Printed (Text ''metrics message''), Called_save_model] \<and>
        model_manager tm' = 1 \<and>
        map (\<lambda>m. (average (pm_average_meter m), best_score (pm_average_meter m)))
          (the (ms ''train'')) = [(1 / 8, 1 / 8)])"
  by (simp add: MLTrainManager_train_def Let_def phases_of_def example_train_manager_def
      counting_model_manager_def np_stack_def fit_and_predict_def tm_emit_def
      record_metric_def phase_metric_update_def meter_update_def fresh_meter_def)


section \<open>The test pass: \<open>test\<close> and \<open>load_model\<close>\<close>









text \<open>
  Claim C4, as the code has it. When the wrapped model's loader raises
  \<open>FileNotFoundError\<close> for the configured model path (the checkpoint file is absent),
  \<open>load_model\<close> prints the exception and the line naming the path and ends in
  \<open>SystemExit(1)\<close>, raised by \<open>exit(1)\<close>: that is the fatal error the caller
  receives. \<open>self.fitted\<close> is not assigned and nothing runs after it.
  \<open>test(load_best=True)\<close> ends in the same error right after the call of
  \<open>load_model\<close>: no prediction is made, no array is returned and no metric changes.
\<close>

theorem load_model_absent_checkpoint_is_fatal:
  assumes "cfg self ''model_path'' = Some path"
    and "inner_load_model iops (model self) path w = (Some (FileNotFoundError msg), m', w')"
    and "mgr_model mgr = (self, w)"
  shows "load_model iops self w =
           (Some (SystemExit 1), self\<lparr>model := m'\<rparr>,
            print_line (Fmt ''trained model file doesn't exist at '' path)
              (print_line (Text msg) w')) \<and>
         test (BaseModel_backend iops fit predict crit cm) return_metrics True mgr =
           (Inl (SystemExit 1),
            emit Called_load_model
              (mgr\<lparr>mgr_model := (self\<lparr>model := m'\<rparr>,
                 print_line (Fmt ''trained model file doesn't exist at '' path)
                   (print_line (Text msg) w'))\<rparr>))"
  using assms
  by (simp add: load_model_def test_def call_load_model_def BaseModel_backend_def)

theorem load_model_absent_checkpoint_is_fatal_witness:
  "fst (load_model (LightGBM_ops pickle_load) unfitted_backend empty_world) =
     Some (SystemExit 1) \<and>
   stdout (snd (snd (load_model (LightGBM_ops pickle_load) unfitted_backend empty_world))) =
     [Text ''No such file or directory'',
      Fmt ''trained model file doesn't exist at '' (StrV ''out/model.pkl'')] \<and>
   fst (test lightgbm_backend False True no_checkpoint_manager) = Inl (SystemExit 1) \<and>
   events (snd (test lightgbm_backend False True no_checkpoint_manager)) =
     [Called_load_model] \<and>
   metrics (snd (test lightgbm_backend False True no_checkpoint_manager)) =
     metrics no_checkpoint_manager \<and>
   \<not> fitted (fst (mgr_model (snd (test lightgbm_backend False True no_checkpoint_manager))))"
  using load_model_absent_checkpoint_is_fatal
    [of unfitted_backend "StrV ''out/model.pkl''" "LightGBM_ops pickle_load" empty_world
        "''No such file or directory''" unfitted_lightgbm empty_world no_checkpoint_manager
        "\<lambda>inputs labels phase b. (Inr (0, inputs), b)" "\<lambda>inputs b. (Inr inputs, b)"
        "\<lambda>preds labels b. (Inr 0, b)" "\<lambda>labels preds n. Inr []" False]
  by (simp add: unfitted_backend_def regress_cfg_def LightGBM_ops_def pickle_load_def
      empty_world_def no_checkpoint_manager_def lightgbm_backend_def print_line_def emit_def
      unfitted_lightgbm_def)

text \<open>
  The claim as stated names the error \<open>CheckpointLoadError\<close> and a return of zero
  predictions. With no file in the world, what \<open>load_model\<close> and
  \<open>test(load_best=True)\<close> end in is \<open>SystemExit(1)\<close>, not that error, and
  \<open>test\<close> returns no arrays, empty or not.
\<close>

theorem load_model_exits_counterexample:
  "fst (load_model (LightGBM_ops pickle_load) unfitted_backend empty_world) =
     Some (SystemExit 1) \<and>
   fst (load_model (LightGBM_ops pickle_load) unfitted_backend empty_world) \<noteq>
     Some (CheckpointLoadError ''out/model.pkl'') \<and>
   fst (test lightgbm_backend False True no_checkpoint_manager) = Inl (SystemExit 1) \<and>
   fst (test lightgbm_backend False True no_checkpoint_manager) \<noteq>
     Inl (CheckpointLoadError ''out/model.pkl'') \<and>
   fst (test lightgbm_backend False True no_checkpoint_manager) \<noteq> Inr ([], [], None)"
  by (simp add: test_def call_load_model_def lightgbm_backend_def BaseModel_backend_def
      load_model_def LightGBM_ops_def pickle_load_def unfitted_backend_def regress_cfg_def
      empty_world_def no_checkpoint_manager_def unfitted_lightgbm_def)




end
